theory Spec2Isabelle
  imports Complex_Main "HOL-Library.Sublist"
begin

section \<open>Strings as the source uses them\<close>

text \<open>
  A JavaScript string is modelled as a \<^typ>\<open>string\<close>, one \<^typ>\<open>char\<close> per code unit, for
  text whose code units are below 256 (Latin-1). \<^verbatim>\<open>toLowerCase\<close> maps A to Z and the
  capital letters 192 to 222 (but not the sign 215) 32 places up; white space is what
  \<^verbatim>\<open>\s\<close> and \<^verbatim>\<open>trim\<close> match in this range (TAB, LF, VT, FF, CR, SPACE, NBSP).
  \<^verbatim>\<open>s.includes(t)\<close> is \<^term>\<open>sublist t s\<close>.
\<close>

definition lower_char :: "char \<Rightarrow> char" where
  "lower_char c =
     (let n = (of_char c :: nat) in
      if (65 \<le> n \<and> n \<le> 90) \<or> (192 \<le> n \<and> n \<le> 222 \<and> n \<noteq> 215) then char_of (n + 32)
      else c)"

definition toLowerCase :: "string \<Rightarrow> string" where
  "toLowerCase s = map lower_char s"

definition is_space :: "char \<Rightarrow> bool" where
  "is_space c = ((of_char c :: nat) \<in> {9, 10, 11, 12, 13, 32, 160})"

definition trim :: "string \<Rightarrow> string" where
  "trim s = rev (dropWhile is_space (rev (dropWhile is_space s)))"

text \<open>\<^verbatim>\<open>s.replace(/\s+/g, '')\<close>: every run of white space is deleted.\<close>

definition remove_spaces :: "string \<Rightarrow> string" where
  "remove_spaces s = filter (\<lambda>c. \<not> is_space c) s"

definition js_includes :: "string \<Rightarrow> string \<Rightarrow> bool" where
  "js_includes s t = sublist t s"

text \<open>\<^verbatim>\<open>arr.indexOf(x)\<close>, with \<^term>\<open>None\<close> for \<^verbatim>\<open>-1\<close>.\<close>

fun indexOf :: "'a list \<Rightarrow> 'a \<Rightarrow> nat option" where
  "indexOf [] c = None"
| "indexOf (x # xs) c = (if x = c then Some 0 else map_option Suc (indexOf xs c))"

text \<open>Decimal rendering of a number inside a template literal.\<close>

definition digit_char :: "nat \<Rightarrow> char" where
  "digit_char d = char_of (48 + d)"

function string_of_nat :: "nat \<Rightarrow> string" where
  "string_of_nat n =
     (if n < 10 then [digit_char n] else string_of_nat (n div 10) @ [digit_char (n mod 10)])"
  by pat_completeness auto
termination
  by (relation "measure id") auto

declare string_of_nat.simps [simp del]

section \<open>The FLAMES game (\<^verbatim>\<open>FlamesGame.calculateFlames\<close>)\<close>

record FlamesResult =
  status :: string
  description :: string
  score :: nat

record flames_state =
  name1 :: string
  name2 :: string
  result :: "FlamesResult option"

text \<open>
  The loop \<^verbatim>\<open>for (let i = 0; i < n1.length; i++)\<close> that marks common characters with
  \<^verbatim>\<open>'*'\<close> in both arrays.
\<close>

function remove_common :: "nat \<Rightarrow> string \<Rightarrow> string \<Rightarrow> string \<times> string" where
  "remove_common i n1 n2 =
     (if i < length n1 then
        (case indexOf n2 (n1 ! i) of
           None \<Rightarrow> remove_common (Suc i) n1 n2
         | Some index \<Rightarrow> remove_common (Suc i) (n1[i := CHR ''*'']) (n2[index := CHR ''*'']))
      else (n1, n2))"
  by pat_completeness auto
termination
  by (relation "measure (\<lambda>(i, n1, n2). length n1 - i)") auto

declare remove_common.simps [simp del]

definition flames_count :: "string \<Rightarrow> string \<Rightarrow> nat" where
  "flames_count nm1 nm2 =
     (let n1 = remove_spaces (toLowerCase nm1);
          n2 = remove_spaces (toLowerCase nm2);
          (m1, m2) = remove_common 0 n1 n2
      in length (filter (\<lambda>c. c \<noteq> CHR ''*'') m1) + length (filter (\<lambda>c. c \<noteq> CHR ''*'') m2))"

definition splitFlames :: string where
  "splitFlames = ''FLAMES''"

definition descriptions :: "string list" where
  "descriptions =
    [''A solid friendship is the foundation of everything good.'',
     ''Passion is in the air! A romantic connection.'',
     ''There is a sweet fondness and liking between you two.'',
     ''Destiny points towards a lifelong commitment.'',
     ''Uh oh! You might rub each other the wrong way.'',
     ''A bond as deep as family, or soulmates in disguise.'']"

text \<open>\<^verbatim>\<open>arr.splice(idx, 1)\<close> for an index inside the array.\<close>

definition splice1 :: "nat \<Rightarrow> 'a list \<Rightarrow> 'a list" where
  "splice1 idx xs = take idx xs @ drop (Suc idx) xs"

text \<open>
  One round of the elimination loop: the body of
  \<^verbatim>\<open>while (activeFlames.length > 1)\<close>. The loop is entered only when \<^verbatim>\<open>count > 0\<close>,
  so \<^verbatim>\<open>idx + count - 1\<close> is never negative.
\<close>

definition elimination_round :: "nat \<Rightarrow> nat \<times> string \<Rightarrow> nat \<times> string" where
  "elimination_round count st =
     (let idx = (fst st + count - 1) mod length (snd st) in (idx, splice1 idx (snd st)))"

function elimination :: "nat \<Rightarrow> nat \<times> string \<Rightarrow> nat \<times> string" where
  "elimination count st =
     (if length (snd st) > 1 then elimination count (elimination_round count st) else st)"
  by pat_completeness auto
termination
proof (relation "measure (\<lambda>(count, st). length (snd st))")
  show "wf (measure (\<lambda>(count, st). length (snd st)))"
    by simp
next
  fix count :: nat and st :: "nat \<times> string"
  assume "1 < length (snd st)"
  then have "0 < length (snd st)"
    by linarith
  then have "(fst st + count - 1) mod length (snd st) < length (snd st)"
    by (rule mod_less_divisor)
  then have "length (snd (elimination_round count st)) < length (snd st)"
    by (simp add: elimination_round_def splice1_def Let_def min_def)
  then show "((count, elimination_round count st), (count, st))
      \<in> measure (\<lambda>(count, st). length (snd st))"
    by simp
qed

declare elimination.simps [simp del]

text \<open>\<^verbatim>\<open>finalChar\<close>; \<^term>\<open>None\<close> stands for \<^verbatim>\<open>undefined\<close> (index 0 of an empty array).\<close>

definition finalChar :: "nat \<Rightarrow> char option" where
  "finalChar count =
     (if count > 0 then
        (case snd (elimination count (0, splitFlames)) of [] \<Rightarrow> None | c # _ \<Rightarrow> Some c)
      else Some (CHR ''S''))"

definition flames_switch :: "char option \<Rightarrow> string \<times> string" where
  "flames_switch fc =
     (if fc = Some (CHR ''F'') then (''Friends'', descriptions ! 0)
      else if fc = Some (CHR ''L'') then (''Lovers'', descriptions ! 1)
      else if fc = Some (CHR ''A'') then (''Affection'', descriptions ! 2)
      else if fc = Some (CHR ''M'') then (''Marriage'', descriptions ! 3)
      else if fc = Some (CHR ''E'') then (''Enemies'', descriptions ! 4)
      else if fc = Some (CHR ''S'') then (''Siblings'', descriptions ! 5)
      else (''Unknown'', ''The stars are confused.''))"

definition calculateFlames :: "flames_state \<Rightarrow> flames_state" where
  "calculateFlames s =
     (if trim (name1 s) = [] \<or> trim (name2 s) = [] then s
      else
        let count = flames_count (name1 s) (name2 s);
            (st, desc) = flames_switch (finalChar count)
        in s\<lparr>result := Some \<lparr>status = st, description = desc, score = count\<rparr>\<rparr>)"

definition flames_statuses :: "string set" where
  "flames_statuses =
     {''Friends'', ''Lovers'', ''Affection'', ''Marriage'', ''Enemies'', ''Siblings''}"

section \<open>The live voice session (\<^verbatim>\<open>LiveChat\<close>)\<close>

subsection \<open>Configuration\<close>

datatype Language = English | Hindi | Tamil | Telugu | Malayalam | Kannada

text \<open>The two values \<^verbatim>\<open>'mama'\<close> and \<^verbatim>\<open>'love'\<close> of the type \<^verbatim>\<open>Mode\<close>.\<close>

datatype Mode = Mama | Love

definition LANGUAGES :: "Language list" where
  "LANGUAGES = [English, Hindi, Tamil, Telugu, Malayalam, Kannada]"

definition MAX_RETRIES :: nat where
  "MAX_RETRIES = 3"

definition RETRY_DELAY_MS :: nat where
  "RETRY_DELAY_MS = 2000"

fun language_name :: "Language \<Rightarrow> string" where
  "language_name English = ''English''"
| "language_name Hindi = ''Hindi''"
| "language_name Tamil = ''Tamil''"
| "language_name Telugu = ''Telugu''"
| "language_name Malayalam = ''Malayalam''"
| "language_name Kannada = ''Kannada''"

text \<open>
  What a template literal prints for \<^verbatim>\<open>selectedLanguage!\<close>: the language name, or
  \<^verbatim>\<open>null\<close> when no language is selected at run time.
\<close>

definition language_text :: "Language option \<Rightarrow> string" where
  "language_text lang = (case lang of None \<Rightarrow> ''null'' | Some l \<Rightarrow> language_name l)"

definition getSystemInstruction :: "Language option \<Rightarrow> Mode \<Rightarrow> string" where
  \<open>getSystemInstruction lang mode =
     (if mode = Mama then
        [CHR 0x0A] @
        ''        You are "Mama", a wise, warm, and caring Indian man (like a supportive uncle or grandfather). '' @
        [CHR 0x0A] @
        ''        You speak '' @
        language_text lang @
        ''. '' @
        [CHR 0x0A] @
        ''        Your tone is grounded, respectful, and wise. '' @
        [CHR 0x0A] @
        ''        You give empathetic advice on life, personal growth, and general ideas.'' @
        [CHR 0x0A] @
        ''        CRITICAL: Your voice is MALE. Speak ONLY in '' @
        language_text lang @
        ''. Be a good listener.'' @
        [CHR 0x0A] @
        ''      ''
      else
        [CHR 0x0A] @
        ''        You are "Priya", a sweet, realistic Indian girl. '' @
        [CHR 0x0A] @
        ''        You are helping the user practice "Love Speaking" or simply having a romantic, affectionate conversation.'' @
        [CHR 0x0A] @
        ''        You speak '' @
        language_text lang @
        ''.'' @
        [CHR 0x0A] @
        ''        Your tone is soft, slightly shy but engaging, and very affectionate.'' @
        [CHR 0x0A] @
        ''        CRITICAL: Your voice is FEMALE. Speak ONLY in '' @
        language_text lang @
        ''. Act like a loving partner or girlfriend.'' @
        [CHR 0x0A] @
        ''      '')\<close>

record session_config =
  model :: string
  responseModalities :: "string list"
  systemInstruction :: string
  voiceName :: string

text \<open>
  The \<^verbatim>\<open>config\<close> that \<^verbatim>\<open>connectWithRetry\<close> passes to \<^verbatim>\<open>live.connect\<close>, from the
  selected language and mode.
\<close>

definition connect_config :: "Language option \<Rightarrow> Mode \<Rightarrow> session_config" where
  "connect_config lang mode =
     \<lparr>model = ''gemini-2.5-flash-native-audio-preview-09-2025'',
      responseModalities = [''AUDIO''],
      systemInstruction = getSystemInstruction lang mode,
      voiceName = (if mode = Mama then ''Puck'' else ''Kore'')\<rparr>"

subsection \<open>Errors and their classification\<close>

text \<open>
  A thrown value: its \<^verbatim>\<open>message\<close> property (\<^term>\<open>None\<close> when undefined) and what
  \<^verbatim>\<open>toString()\<close> returns.
\<close>

record js_error =
  message :: "string option"
  toString :: string

definition Error :: "string \<Rightarrow> js_error" where
  "Error msg =
     \<lparr>message = Some msg, toString = (if msg = [] then ''Error'' else ''Error: '' @ msg)\<rparr>"

definition getFriendlyErrorMessage :: "js_error \<Rightarrow> string" where
  "getFriendlyErrorMessage err =
     (let msg = toLowerCase
            (case message err of
               None \<Rightarrow> toString err
             | Some m \<Rightarrow> if m \<noteq> [] then m else toString err)
      in
        if js_includes msg ''401'' \<or> js_includes msg ''unauthenticated''
           \<or> js_includes msg ''api key'' then
          ''Authentication failed. Please check your API Key configuration.''
        else if js_includes msg ''403'' \<or> js_includes msg ''permission denied'' then
          ''Access denied. Your API Key may not have permission to use this model.''
        else if js_includes msg ''503'' \<or> js_includes msg ''unavailable''
           \<or> js_includes msg ''overloaded'' then
          ''Service is temporarily unavailable. Please try again later.''
        else if js_includes msg ''network'' \<or> js_includes msg ''fetch''
           \<or> js_includes msg ''failed to fetch'' then
          ''Network error. Please check your internet connection.''
        else if js_includes msg ''microphone'' \<or> js_includes msg ''media device'' then
          ''Microphone access denied or not found.''
        else ''Connection error: '' @ msg)"

text \<open>
  The test \<^verbatim>\<open>isFatal\<close> of the catch block of \<^verbatim>\<open>connectWithRetry\<close>; an undefined
  message makes every \<^verbatim>\<open>err.message?.includes(...)\<close> undefined, hence not fatal.
\<close>

definition isFatal :: "js_error \<Rightarrow> bool" where
  "isFatal err =
     (case message err of
        None \<Rightarrow> False
      | Some m \<Rightarrow>
          js_includes m ''401'' \<or> js_includes m ''API key'' \<or> js_includes m ''Permission denied'')"

text \<open>
  The failures that \<^const>\<open>getFriendlyErrorMessage\<close> reports as authentication or
  authorization failures: its first two tests, on the lower-cased text.
\<close>

definition is_auth_failure :: "js_error \<Rightarrow> bool" where
  "is_auth_failure err =
     (let msg = toLowerCase
            (case message err of
               None \<Rightarrow> toString err
             | Some m \<Rightarrow> if m \<noteq> [] then m else toString err)
      in js_includes msg ''401'' \<or> js_includes msg ''unauthenticated''
         \<or> js_includes msg ''api key''
         \<or> js_includes msg ''403'' \<or> js_includes msg ''permission denied'')"

subsection \<open>Numbers\<close>

text \<open>
  A JavaScript number is an IEEE 754 binary64 value, here the real number it stands for.
  \<open>to_double\<close> rounds a real to the nearest double, ties to the even mantissa: the
  unit in the last place of \<open>x\<close> is \<open>2\<close> to the power \<open>ulp_exponent x\<close> (53-bit
  mantissa, subnormal below \<open>2^-1022\<close>). The sum of two numbers is the rounded exact sum.
  Overflow to infinity (magnitudes from \<open>2^1024\<close> on) and NaN are not modelled.
\<close>

definition rte :: "real \<Rightarrow> int" where
  "rte q =
     (let f = \<lfloor>q\<rfloor>; r = q - of_int f in
      if r < 1 / 2 then f else if 1 / 2 < r then f + 1 else if even f then f else f + 1)"

definition ulp_exponent :: "real \<Rightarrow> int" where
  "ulp_exponent x = max (\<lfloor>log 2 \<bar>x\<bar>\<rfloor> - 52) (- 1074)"

definition to_double :: "real \<Rightarrow> real" where
  "to_double x =
     (if x = 0 then 0
      else of_int (rte (x / 2 powr of_int (ulp_exponent x))) * 2 powr of_int (ulp_exponent x))"

definition double_add :: "real \<Rightarrow> real \<Rightarrow> real" where
  "double_add x y = to_double (x + y)"

definition is_double :: "real \<Rightarrow> bool" where
  "is_double x = (to_double x = x)"

subsection \<open>Component state, platform and effects\<close>

datatype ctx_kind = InputCtx | OutputCtx

datatype ctx_state = Suspended | Running | Closed

record MediaStream =
  stream_active :: bool
  tracks :: "nat list"

text \<open>The \<^verbatim>\<open>duration\<close> of a decoded buffer, a number of seconds.\<close>

record AudioBuffer =
  duration :: real

text \<open>
  The language and mode that the closures \<^verbatim>\<open>startSession\<close> and \<^verbatim>\<open>connectWithRetry\<close> of one
  render hold: the selection at the click on Start.
\<close>

type_synonym selection = "Language option \<times> Mode"

text \<open>An encoded capture frame, the result of \<^verbatim>\<open>createPcmBlob\<close>.\<close>

type_synonym pcm_blob = "int list"

text \<open>
  The part of a \<^verbatim>\<open>LiveServerMessage\<close> that \<^verbatim>\<open>onmessage\<close> reads:
  \<^verbatim>\<open>serverContent?.modelTurn?.parts?.[0]?.inlineData?.data\<close> and
  \<^verbatim>\<open>serverContent?.interrupted\<close>.
\<close>

record LiveServerMessage =
  data :: "string option"
  interrupted :: bool

text \<open>
  Calls to the platform and to the SDK, in the order they are made. Informational
  \<^verbatim>\<open>console.log\<close> calls are left out; \<^verbatim>\<open>console.error\<close> and \<^verbatim>\<open>console.warn\<close> are
  recorded with their first argument.
\<close>

datatype effect =
    NewClient
  | NewAudioContext ctx_kind nat
  | GetUserMedia
  | LiveConnect nat nat session_config
  | ContextResume ctx_kind
  | ContextClose ctx_kind
  | TrackStop nat
  | NodeDisconnect nat
  | NodeConnect nat
  | SourceStart nat real
  | SourceStop nat
  | SendRealtimeInput pcm_blob
  | ConsoleError string
  | ConsoleWarn string

datatype promise_state = Pending | Fulfilled | Rejected

text \<open>
  One call of \<^verbatim>\<open>live.connect\<close>: the attempt number of the \<^verbatim>\<open>connectWithRetry\<close> call
  that awaits it, the state of the promise it returned, the frames whose
  \<^verbatim>\<open>then\<close> callback waits for the promise, and the selection held by the closure that
  made the call.
\<close>

record connect_call =
  call_attempt :: nat
  call_state :: promise_state
  deferred :: "pcm_blob list"
  call_selection :: selection

text \<open>
  The state of the component: the React state, the refs, and what the event loop holds
  for it (the clock in milliseconds, the pending retry timers as due time, attempt number
  and the selection of the closure the callback belongs to, the \<^verbatim>\<open>live.connect\<close> calls
  made, the sources whose \<^verbatim>\<open>ended\<close> listener has not run yet, a counter for fresh object
  identities, the effects performed, and the exceptions no handler caught). A promise is
  named by its index in \<open>connects\<close>; the set \<^verbatim>\<open>sourcesRef\<close> is a list in insertion order,
  the order \<^verbatim>\<open>forEach\<close> visits it in.
\<close>

record state =
  connected :: bool
  error :: "string option"
  isTalking :: bool
  isRetrying :: bool
  selectedLanguage :: "Language option"
  selectedMode :: Mode
  inputAudioContextRef :: "ctx_state option"
  outputAudioContextRef :: "ctx_state option"
  streamRef :: "MediaStream option"
  processorRef :: "nat option"
  inputSourceRef :: "nat option"
  sessionPromiseRef :: "nat option"
  nextStartTimeRef :: real
  aiClientRef :: "string option"
  sourcesRef :: "nat list"
  userInitiatedDisconnect :: bool
  now_ms :: nat
  timers :: "(nat \<times> nat \<times> selection) list"
  connects :: "connect_call list"
  listeners :: "nat list"
  fresh :: nat
  trace :: "effect list"
  uncaught :: "js_error list"

definition init :: state where
  "init =
     \<lparr>connected = False, error = None, isTalking = False, isRetrying = False,
      selectedLanguage = None, selectedMode = Mama,
      inputAudioContextRef = None, outputAudioContextRef = None, streamRef = None,
      processorRef = None, inputSourceRef = None, sessionPromiseRef = None,
      nextStartTimeRef = 0, aiClientRef = None, sourcesRef = [],
      userInitiatedDisconnect = False,
      now_ms = 0, timers = [], connects = [], listeners = [], fresh = 0, trace = [],
      uncaught = []\<rparr>"

text \<open>
  What the platform decides: the configured API key, the answer to the microphone
  request, the state of a new audio context, the result of
  \<^verbatim>\<open>base64ToUint8Array\<close> followed by \<^verbatim>\<open>decodeAudioData\<close> (module \<^verbatim>\<open>utils/audio\<close>) on a
  payload, and which release operations fail.
\<close>

record env =
  API_KEY :: "string option"
  getUserMedia :: "js_error + MediaStream"
  new_context_state :: ctx_state
  decode :: "string \<Rightarrow> js_error + AudioBuffer"
  close_rejects :: "ctx_kind \<Rightarrow> js_error option"
  track_stop_throws :: "nat \<Rightarrow> js_error option"
  disconnect_throws :: "nat \<Rightarrow> js_error option"
  source_stop_throws :: "nat \<Rightarrow> js_error option"

text \<open>
  How a piece of code ends: it returns, or it throws; the mutations made before a throw
  stay.
\<close>

datatype completion = Returns state | Throws js_error state

fun bind_c :: "completion \<Rightarrow> (state \<Rightarrow> completion) \<Rightarrow> completion" where
  "bind_c (Returns s) f = f s"
| "bind_c (Throws e s) f = Throws e s"

text \<open>\<^verbatim>\<open>try { body } catch (e) { handler }\<close>.\<close>

fun try_catch :: "completion \<Rightarrow> (js_error \<Rightarrow> state \<Rightarrow> completion) \<Rightarrow> completion" where
  "try_catch (Returns s) h = Returns s"
| "try_catch (Throws e s) h = h e s"

text \<open>\<^verbatim>\<open>xs.forEach(f)\<close>: a throw of the callback ends the iteration.\<close>

fun forEach :: "'a list \<Rightarrow> ('a \<Rightarrow> state \<Rightarrow> completion) \<Rightarrow> state \<Rightarrow> completion" where
  "forEach [] f s = Returns s"
| "forEach (x # xs) f s = bind_c (f x s) (forEach xs f)"

definition emit :: "effect \<Rightarrow> state \<Rightarrow> state" where
  "emit e s = s\<lparr>trace := trace s @ [e]\<rparr>"

definition set_ctx :: "ctx_kind \<Rightarrow> ctx_state option \<Rightarrow> state \<Rightarrow> state" where
  "set_ctx k v s =
     (case k of InputCtx \<Rightarrow> s\<lparr>inputAudioContextRef := v\<rparr>
              | OutputCtx \<Rightarrow> s\<lparr>outputAudioContextRef := v\<rparr>)"

definition get_ctx :: "ctx_kind \<Rightarrow> state \<Rightarrow> ctx_state option" where
  "get_ctx k s = (case k of InputCtx \<Rightarrow> inputAudioContextRef s | OutputCtx \<Rightarrow> outputAudioContextRef s)"

subsubsection \<open>Platform calls\<close>

text \<open>
  \<^verbatim>\<open>ctx.close().catch(console.error)\<close> under the guard
  \<^verbatim>\<open>ref.current && ref.current.state !== 'closed'\<close>: a rejection is logged. The trace
  records the log next to the call; in the browser the handler runs in a later
  microtask, so the position of this log among the later entries is not the browser's.
\<close>

definition close_context :: "env \<Rightarrow> ctx_kind \<Rightarrow> state \<Rightarrow> state" where
  "close_context en k s =
     (case get_ctx k s of
        None \<Rightarrow> s
      | Some st \<Rightarrow>
          if st \<noteq> Closed then
            (let s1 = set_ctx k (Some Closed) (emit (ContextClose k) s) in
             case close_rejects en k of
               None \<Rightarrow> s1
             | Some e \<Rightarrow> emit (ConsoleError (toString e)) s1)
          else s)"

definition track_stop :: "env \<Rightarrow> nat \<Rightarrow> state \<Rightarrow> completion" where
  "track_stop en t s =
     (case track_stop_throws en t of
        None \<Rightarrow> Returns (emit (TrackStop t) s)
      | Some e \<Rightarrow> Throws e (emit (TrackStop t) s))"

definition node_disconnect :: "env \<Rightarrow> nat \<Rightarrow> state \<Rightarrow> completion" where
  "node_disconnect en n s =
     (case disconnect_throws en n of
        None \<Rightarrow> Returns (emit (NodeDisconnect n) s)
      | Some e \<Rightarrow> Throws e (emit (NodeDisconnect n) s))"

definition source_stop :: "env \<Rightarrow> nat \<Rightarrow> state \<Rightarrow> completion" where
  "source_stop en h s =
     (case source_stop_throws en h of
        None \<Rightarrow> Returns (emit (SourceStop h) s)
      | Some e \<Rightarrow> Throws e (emit (SourceStop h) s))"

text \<open>\<^verbatim>\<open>ref.current?.disconnect()\<close>.\<close>

definition disconnect_opt :: "env \<Rightarrow> nat option \<Rightarrow> state \<Rightarrow> completion" where
  "disconnect_opt en r s = (case r of None \<Rightarrow> Returns s | Some n \<Rightarrow> node_disconnect en n s)"

text \<open>
  \<^verbatim>\<open>sourcesRef.current.forEach(source => { try { source.stop(); } catch (e) { } })\<close>
\<close>

definition stop_all_sources :: "env \<Rightarrow> state \<Rightarrow> completion" where
  "stop_all_sources en s =
     forEach (sourcesRef s) (\<lambda>h s'. try_catch (source_stop en h s') (\<lambda>e s''. Returns s'')) s"

subsection \<open>\<^verbatim>\<open>stopSession\<close>\<close>

text \<open>
  The calls \<^verbatim>\<open>track.stop()\<close> are in no \<^verbatim>\<open>try\<close>: a throw there leaves
  \<^verbatim>\<open>stopSession\<close> at once. The two \<^verbatim>\<open>disconnect\<close> calls share one \<^verbatim>\<open>try\<close>, each
  \<^verbatim>\<open>source.stop()\<close> has its own.
\<close>

definition stop_tracks :: "env \<Rightarrow> state \<Rightarrow> completion" where
  "stop_tracks en s =
     (case streamRef s of
        None \<Rightarrow> Returns s
      | Some ms \<Rightarrow> forEach (tracks ms) (track_stop en) s)"

definition disconnect_nodes :: "env \<Rightarrow> state \<Rightarrow> completion" where
  "disconnect_nodes en s =
     try_catch
       (bind_c (disconnect_opt en (processorRef s) s)
          (\<lambda>s'. disconnect_opt en (inputSourceRef s') s'))
       (\<lambda>e s'. Returns (emit (ConsoleWarn ''Error disconnecting audio nodes:'') s'))"

definition reset_after_stop :: "state \<Rightarrow> state" where
  "reset_after_stop s =
     s\<lparr>sourcesRef := [],
       inputAudioContextRef := None,
       outputAudioContextRef := None,
       streamRef := None,
       processorRef := None,
       sessionPromiseRef := None,
       nextStartTimeRef := 0,
       connected := False,
       isTalking := False,
       isRetrying := False\<rparr>"

definition stopSession :: "env \<Rightarrow> state \<Rightarrow> completion" where
  "stopSession en s =
     (let s1 = s\<lparr>userInitiatedDisconnect := True\<rparr>;
          s2 = close_context en InputCtx s1;
          s3 = close_context en OutputCtx s2
      in bind_c (stop_tracks en s3)
           (\<lambda>s4. bind_c (disconnect_nodes en s4)
              (\<lambda>s5. bind_c (stop_all_sources en s5)
                 (\<lambda>s6. Returns (reset_after_stop s6)))))"

subsection \<open>\<^verbatim>\<open>connectWithRetry\<close>\<close>

text \<open>
  The catch block: a retry timer for a failure that is not fatal, below
  \<^verbatim>\<open>MAX_RETRIES\<close> and not after a stop; otherwise the error is shown and the session is
  stopped. The flag \<^verbatim>\<open>userInitiatedDisconnect\<close> is read here, when the failure is caught.
  The timer callback calls the \<^verbatim>\<open>connectWithRetry\<close> of the same closure, with selection
  \<open>sel\<close>.
\<close>

definition connect_catch ::
  "env \<Rightarrow> selection \<Rightarrow> nat \<Rightarrow> js_error \<Rightarrow> state \<Rightarrow> completion" where
  "connect_catch en sel attempt err s =
     (let s1 = emit (ConsoleError (''Connection attempt '' @ string_of_nat (attempt + 1) @ '' failed:'')) s
      in
        if \<not> isFatal err \<and> attempt < MAX_RETRIES \<and> \<not> userInitiatedDisconnect s1 then
          Returns (s1\<lparr>timers := timers s1 @ [(now_ms s1 + RETRY_DELAY_MS, attempt + 1, sel)]\<rparr>)
        else
          stopSession en
            (s1\<lparr>isRetrying := False, error := Some (getFriendlyErrorMessage err)\<rparr>))"

text \<open>
  The \<^verbatim>\<open>TypeError\<close> of \<^verbatim>\<open>aiClientRef.current!.live\<close> on a null client.
\<close>

definition null_client_error :: js_error where
  "null_client_error =
     \<lparr>message = Some ''Cannot read properties of null (reading 'live')'',
      toString = ''TypeError: Cannot read properties of null (reading 'live')''\<rparr>"

text \<open>
  The call of \<^verbatim>\<open>connectWithRetry(attempt)\<close> up to \<^verbatim>\<open>await sessionPromise\<close>: the retry
  banner, the configuration, the call of \<^verbatim>\<open>live.connect\<close>, the promise stored in
  \<^verbatim>\<open>sessionPromiseRef\<close>. The names \<^verbatim>\<open>selectedLanguage\<close> and \<^verbatim>\<open>selectedMode\<close> in its body
  are those of the closure, \<open>sel\<close>, not the current React state.
\<close>

definition connect_try :: "selection \<Rightarrow> nat \<Rightarrow> state \<Rightarrow> completion" where
  "connect_try sel attempt s =
     (let s1 = (if attempt > 0 then
                  s\<lparr>isRetrying := True,
                    error := Some (''Connection lost. Retrying... ('' @ string_of_nat attempt
                               @ ''/'' @ string_of_nat MAX_RETRIES @ '')'')\<rparr>
                else s)
      in case aiClientRef s1 of
           None \<Rightarrow> Throws null_client_error s1
         | Some _ \<Rightarrow>
             (let s2 = emit (LiveConnect attempt (now_ms s1)
                          (connect_config (fst sel) (snd sel))) s1
              in Returns (s2\<lparr>connects := connects s2
                               @ [\<lparr>call_attempt = attempt, call_state = Pending, deferred = [],
                                   call_selection = sel\<rparr>],
                             sessionPromiseRef := Some (length (connects s2))\<rparr>)))"

definition connectWithRetry :: "env \<Rightarrow> selection \<Rightarrow> nat \<Rightarrow> state \<Rightarrow> completion" where
  "connectWithRetry en sel attempt s =
     try_catch (connect_try sel attempt s) (connect_catch en sel attempt)"

subsection \<open>\<^verbatim>\<open>startSession\<close>\<close>

definition api_key_missing :: js_error where
  "api_key_missing =
     Error ''API Key is missing. Please check your .env file, environment variables, or application configuration.''"

definition startSession_catch :: "env \<Rightarrow> js_error \<Rightarrow> state \<Rightarrow> completion" where
  "startSession_catch en e s =
     stopSession en
       ((emit (ConsoleError ''Setup Error:'') s)\<lparr>error := Some (getFriendlyErrorMessage e)\<rparr>)"

definition new_context :: "env \<Rightarrow> ctx_kind \<Rightarrow> nat \<Rightarrow> state \<Rightarrow> state" where
  "new_context en k rate s =
     (if get_ctx k s = None then
        set_ctx k (Some (new_context_state en)) (emit (NewAudioContext k rate) s)
      else s)"

definition acquire_stream :: "env \<Rightarrow> state \<Rightarrow> completion" where
  "acquire_stream en s =
     (if streamRef s = None \<or> \<not> stream_active (the (streamRef s)) then
        (case getUserMedia en of
           Inl e \<Rightarrow> Throws e (emit GetUserMedia s)
         | Inr ms \<Rightarrow> Returns ((emit GetUserMedia s)\<lparr>streamRef := Some ms\<rparr>))
      else Returns s)"

text \<open>
  The body of the \<^verbatim>\<open>try\<close> of \<^verbatim>\<open>startSession\<close>, up to the \<^verbatim>\<open>await\<close> inside
  \<^verbatim>\<open>connectWithRetry(0)\<close>. The microphone request is answered without another event in
  between.
\<close>

definition startSession_try :: "env \<Rightarrow> state \<Rightarrow> completion" where
  "startSession_try en s =
     (case API_KEY en of
        None \<Rightarrow> Throws api_key_missing s
      | Some key \<Rightarrow>
          if key = [] then Throws api_key_missing s
          else
            (let s1 = (emit NewClient s)\<lparr>aiClientRef := Some key\<rparr>;
                 s2 = new_context en InputCtx 16000 s1;
                 s3 = new_context en OutputCtx 24000 s2
             in bind_c (acquire_stream en s3)
                  (connectWithRetry en (selectedLanguage s, selectedMode s) 0)))"

definition startSession :: "env \<Rightarrow> state \<Rightarrow> completion" where
  "startSession en s =
     (if selectedLanguage s = None then
        Returns (s\<lparr>error := Some ''Please select a language first.''\<rparr>)
      else
        try_catch
          (startSession_try en (s\<lparr>error := None, userInitiatedDisconnect := False\<rparr>))
          (startSession_catch en))"

text \<open>
  The promise of call \<open>pid\<close> settles and the awaiting \<^verbatim>\<open>connectWithRetry\<close> resumes:
  fulfilled, the waiting \<^verbatim>\<open>then\<close> callbacks send their frames and the function returns;
  rejected, its catch block runs. The call with attempt 0 is the one \<^verbatim>\<open>startSession\<close>
  awaits inside its own \<^verbatim>\<open>try\<close>.
\<close>

definition connect_settled :: "env \<Rightarrow> nat \<Rightarrow> js_error option \<Rightarrow> state \<Rightarrow> completion" where
  "connect_settled en pid outcome s =
     (if pid < length (connects s) \<and> call_state (connects s ! pid) = Pending then
        (let c = connects s ! pid in
         case outcome of
           None \<Rightarrow>
             Returns (s\<lparr>connects := (connects s)[pid := c\<lparr>call_state := Fulfilled, deferred := []\<rparr>],
                        trace := trace s @ map SendRealtimeInput (deferred c)\<rparr>)
         | Some err \<Rightarrow>
             (let s1 = s\<lparr>connects := (connects s)[pid := c\<lparr>call_state := Rejected, deferred := []\<rparr>]\<rparr>;
                  r = connect_catch en (call_selection c) (call_attempt c) err s1
              in if call_attempt c = 0 then try_catch r (startSession_catch en) else r))
      else Returns s)"

text \<open>
  The timer callback \<^verbatim>\<open>() => connectWithRetry(attempt + 1)\<close>, run when the oldest pending
  timer is due.
\<close>

definition timer_fired :: "env \<Rightarrow> state \<Rightarrow> completion" where
  "timer_fired en s =
     (case timers s of
        [] \<Rightarrow> Returns s
      | (due, attempt, sel) # rest \<Rightarrow>
          if due \<le> now_ms s then connectWithRetry en sel attempt (s\<lparr>timers := rest\<rparr>)
          else Returns s)"

subsection \<open>The connection callbacks\<close>

definition resume_context :: "ctx_kind \<Rightarrow> state \<Rightarrow> state" where
  "resume_context k s =
     (if get_ctx k s = Some Suspended then set_ctx k (Some Running) (emit (ContextResume k) s)
      else s)"

text \<open>
  \<^verbatim>\<open>onopen\<close>; the two \<^verbatim>\<open>resume()\<close> calls it awaits are taken to succeed without another
  event in between. The new source and processor nodes get fresh identities.
\<close>

definition onopen :: "env \<Rightarrow> state \<Rightarrow> completion" where
  "onopen en s =
     (let s1 = s\<lparr>connected := True, isRetrying := False, error := None\<rparr>;
          s2 = resume_context InputCtx s1;
          s3 = resume_context OutputCtx s2
      in
        if inputAudioContextRef s3 = None \<or> streamRef s3 = None then Returns s3
        else
          bind_c
            (try_catch
               (bind_c (disconnect_opt en (inputSourceRef s3) s3)
                  (\<lambda>s'. disconnect_opt en (processorRef s') s'))
               (\<lambda>e s'. Returns s'))
            (\<lambda>s4. let source = fresh s4; processor = fresh s4 + 1 in
               Returns ((emit (NodeConnect processor) (emit (NodeConnect source) s4))
                 \<lparr>inputSourceRef := Some source,
                  processorRef := Some processor,
                  fresh := fresh s4 + 2\<rparr>)))"

text \<open>
  \<^verbatim>\<open>processor.onaudioprocess\<close> with the frame \<^verbatim>\<open>createPcmBlob(inputData)\<close>:
  \<^verbatim>\<open>sessionPromiseRef.current?.then(session => session.sendRealtimeInput(...)).catch(...)\<close>.
\<close>

definition onaudioprocess :: "pcm_blob \<Rightarrow> state \<Rightarrow> completion" where
  "onaudioprocess frame s =
     (case sessionPromiseRef s of
        None \<Rightarrow> Returns s
      | Some pid \<Rightarrow>
          if pid < length (connects s) then
            (let c = connects s ! pid in
             case call_state c of
               Fulfilled \<Rightarrow> Returns (emit (SendRealtimeInput frame) s)
             | Rejected \<Rightarrow> Returns s
             | Pending \<Rightarrow>
                 Returns (s\<lparr>connects := (connects s)[pid := c\<lparr>deferred := deferred c @ [frame]\<rparr>]\<rparr>))
          else Returns s)"

text \<open>
  The \<^verbatim>\<open>try\<close> block of \<^verbatim>\<open>onmessage\<close>: decode the payload, create a source, register
  its \<^verbatim>\<open>ended\<close> listener, start it at the cursor, add the buffer's duration to the cursor
  (\<^verbatim>\<open>+=\<close> on numbers), add the source to the set. The decoding it awaits is taken to
  finish without another event in between.
\<close>

definition schedule_audio :: "env \<Rightarrow> string \<Rightarrow> state \<Rightarrow> completion" where
  "schedule_audio en base64Audio s =
     (case decode en base64Audio of
        Inl e \<Rightarrow> Throws e s
      | Inr audioBuffer \<Rightarrow>
          (let source = fresh s;
               s1 = emit (SourceStart source (nextStartTimeRef s))
                      (s\<lparr>fresh := fresh s + 1, listeners := listeners s @ [source]\<rparr>)
           in Returns (s1\<lparr>nextStartTimeRef :=
                            double_add (nextStartTimeRef s1) (duration audioBuffer),
                          sourcesRef := (if source \<in> set (sourcesRef s1) then sourcesRef s1
                                         else sourcesRef s1 @ [source])\<rparr>)))"

definition on_audio :: "env \<Rightarrow> real \<Rightarrow> string \<Rightarrow> state \<Rightarrow> completion" where
  "on_audio en currentTime base64Audio s =
     (let s1 = s\<lparr>isTalking := True\<rparr>;
          s2 = (if nextStartTimeRef s1 < currentTime then s1\<lparr>nextStartTimeRef := currentTime\<rparr>
                else s1)
      in try_catch (schedule_audio en base64Audio s2)
           (\<lambda>decodeErr s'. Returns (emit (ConsoleError ''Audio decode error:'') s')))"

definition on_interrupted :: "env \<Rightarrow> state \<Rightarrow> completion" where
  "on_interrupted en s =
     bind_c (stop_all_sources en s)
       (\<lambda>s'. Returns (s'\<lparr>sourcesRef := [], nextStartTimeRef := 0, isTalking := False\<rparr>))"

text \<open>
  \<^verbatim>\<open>onmessage\<close>, with the value of \<^verbatim>\<open>outputCtx.currentTime\<close> at the event. An empty
  payload string is falsy.
\<close>

definition onmessage :: "env \<Rightarrow> real \<Rightarrow> LiveServerMessage \<Rightarrow> state \<Rightarrow> completion" where
  "onmessage en currentTime m s =
     (if outputAudioContextRef s = None then Returns s
      else
        bind_c
          (case data m of
             None \<Rightarrow> Returns s
           | Some base64Audio \<Rightarrow>
               if base64Audio \<noteq> [] then on_audio en currentTime base64Audio s else Returns s)
          (\<lambda>s'. if interrupted m then on_interrupted en s' else Returns s'))"

definition onclose :: "state \<Rightarrow> completion" where
  "onclose s = Returns (s\<lparr>connected := False, isTalking := False\<rparr>)"

text \<open>\<^verbatim>\<open>onerror\<close> logs the socket error and does nothing else.\<close>

definition onerror :: "js_error \<Rightarrow> state \<Rightarrow> completion" where
  "onerror err s = Returns (emit (ConsoleError ''Gemini Live WebSocket Error:'') s)"

text \<open>The \<^verbatim>\<open>ended\<close> listener of a source.\<close>

definition on_ended :: "nat \<Rightarrow> state \<Rightarrow> completion" where
  "on_ended source s =
     (let s1 = s\<lparr>sourcesRef := removeAll source (sourcesRef s)\<rparr>
      in Returns (if sourcesRef s1 = [] then s1\<lparr>isTalking := False\<rparr> else s1))"

subsection \<open>The event loop\<close>

datatype event =
    SelectLanguage Language
  | SelectMode Mode
  | StartSession
  | UserStop
  | ConnectSettled nat "js_error option"
  | Elapse nat
  | TimerFired
  | Open
  | Message real LiveServerMessage
  | Close
  | SocketError js_error
  | AudioProcess pcm_blob
  | Ended nat

text \<open>The state a piece of code leaves behind, however it ends.\<close>

fun state_of :: "completion \<Rightarrow> state" where
  "state_of (Returns s) = s"
| "state_of (Throws e s) = s"

text \<open>An exception that leaves a handler is recorded; the state keeps what was done.\<close>

fun finish :: "completion \<Rightarrow> state" where
  "finish (Returns s) = s"
| "finish (Throws e s) = s\<lparr>uncaught := uncaught s @ [e]\<rparr>"

text \<open>
  One event. The browser raises \<^verbatim>\<open>audioprocess\<close> only on an installed processor node,
  and \<^verbatim>\<open>ended\<close> once on each started source, whether it played to its end or was
  stopped.
\<close>

definition step :: "env \<Rightarrow> state \<Rightarrow> event \<Rightarrow> state" where
  "step en s ev =
     (case ev of
        SelectLanguage l \<Rightarrow> s\<lparr>selectedLanguage := Some l\<rparr>
      | SelectMode m \<Rightarrow> s\<lparr>selectedMode := m\<rparr>
      | StartSession \<Rightarrow> finish (startSession en s)
      | UserStop \<Rightarrow> finish (stopSession en s)
      | ConnectSettled pid outcome \<Rightarrow> finish (connect_settled en pid outcome s)
      | Elapse ms \<Rightarrow> s\<lparr>now_ms := now_ms s + ms\<rparr>
      | TimerFired \<Rightarrow> finish (timer_fired en s)
      | Open \<Rightarrow> finish (onopen en s)
      | Message currentTime m \<Rightarrow> finish (onmessage en currentTime m s)
      | Close \<Rightarrow> finish (onclose s)
      | SocketError err \<Rightarrow> finish (onerror err s)
      | AudioProcess frame \<Rightarrow>
          (if processorRef s \<noteq> None then finish (onaudioprocess frame s) else s)
      | Ended source \<Rightarrow>
          (if source \<in> set (listeners s) then
             finish (on_ended source (s\<lparr>listeners := removeAll source (listeners s)\<rparr>))
           else s))"

definition run :: "env \<Rightarrow> state \<Rightarrow> event list \<Rightarrow> state" where
  "run en s evs = foldl (step en) s evs"

text \<open>The tracks of the stream held in \<^verbatim>\<open>streamRef\<close>, if any.\<close>

definition stream_tracks :: "state \<Rightarrow> nat list" where
  "stream_tracks s = (case streamRef s of None \<Rightarrow> [] | Some ms \<Rightarrow> tracks ms)"

text \<open>
  The calls a stop makes, read off the state it starts in: closing the contexts that are
  not closed (a rejection is logged), stopping the tracks, disconnecting the nodes (a
  throw is logged and ends the \<^verbatim>\<open>try\<close> block), stopping the sources.
\<close>

definition close_effects :: "env \<Rightarrow> ctx_kind \<Rightarrow> state \<Rightarrow> effect list" where
  "close_effects en k s =
     (case get_ctx k s of
        None \<Rightarrow> []
      | Some st \<Rightarrow>
          if st = Closed then []
          else ContextClose k #
            (case close_rejects en k of None \<Rightarrow> [] | Some e \<Rightarrow> [ConsoleError (toString e)]))"

definition disconnect_effects_of :: "env \<Rightarrow> nat option \<Rightarrow> effect list \<Rightarrow> effect list" where
  "disconnect_effects_of en r rest =
     (case r of
        None \<Rightarrow> rest
      | Some n \<Rightarrow> NodeDisconnect n #
          (case disconnect_throws en n of
             None \<Rightarrow> rest
           | Some e \<Rightarrow> [ConsoleWarn ''Error disconnecting audio nodes:'']))"

definition disconnect_effects :: "env \<Rightarrow> state \<Rightarrow> effect list" where
  "disconnect_effects en s =
     disconnect_effects_of en (processorRef s) (disconnect_effects_of en (inputSourceRef s) [])"

definition stop_effects :: "env \<Rightarrow> state \<Rightarrow> effect list" where
  "stop_effects en s =
     close_effects en InputCtx s @ close_effects en OutputCtx s
     @ map TrackStop (stream_tracks s) @ disconnect_effects en s
     @ map SourceStop (sourcesRef s)"

text \<open>The effects performed between two states of one run.\<close>

definition effects_since :: "state \<Rightarrow> state \<Rightarrow> effect list" where
  "effects_since s s' = drop (length (trace s)) (trace s')"

text \<open>The configurations passed to \<^verbatim>\<open>live.connect\<close>, call by call.\<close>

fun sent_configs :: "effect list \<Rightarrow> session_config list" where
  "sent_configs [] = []"
| "sent_configs (LiveConnect attempt t cfg # es) = cfg # sent_configs es"
| "sent_configs (e # es) = sent_configs es"

text \<open>The attempt numbers of the \<^verbatim>\<open>live.connect\<close> calls made so far, with their times.\<close>

fun connect_attempts :: "effect list \<Rightarrow> (nat \<times> nat) list" where
  "connect_attempts [] = []"
| "connect_attempts (LiveConnect attempt t cfg # es) = (attempt, t) # connect_attempts es"
| "connect_attempts (e # es) = connect_attempts es"

subsection \<open>The playback schedule of the specification\<close>

text \<open>The start times of the \<^verbatim>\<open>source.start\<close> calls in a trace.\<close>

fun start_times :: "effect list \<Rightarrow> real list" where
  "start_times [] = []"
| "start_times (SourceStart h t # es) = t # start_times es"
| "start_times (e # es) = start_times es"

text \<open>
  The \<^verbatim>\<open>enqueue\<close> of the specification, on a cursor and a list of pairs of the output
  clock at the call and the duration of the buffer: the start is the maximum of cursor
  and clock, the cursor becomes the start plus the duration, a sum of two numbers.
\<close>

fun spec_starts :: "real \<Rightarrow> (real \<times> real) list \<Rightarrow> real list" where
  "spec_starts c [] = []"
| "spec_starts c ((t, d) # r) = max c t # spec_starts (double_add (max c t) d) r"

fun spec_cursor :: "real \<Rightarrow> (real \<times> real) list \<Rightarrow> real" where
  "spec_cursor c [] = c"
| "spec_cursor c ((t, d) # r) = spec_cursor (double_add (max c t) d) r"

text \<open>
  A message that carries the audio payload \<open>b\<close> and no interruption marker, received when
  the output clock shows \<open>t\<close>; the duration of the buffer the payload decodes to.
\<close>

definition audio_event :: "real \<times> string \<Rightarrow> event" where
  "audio_event p = Message (fst p) \<lparr>data = Some (snd p), interrupted = False\<rparr>"

definition buffer_duration :: "env \<Rightarrow> string \<Rightarrow> real" where
  "buffer_duration en b = (case decode en b of Inl e \<Rightarrow> 0 | Inr buf \<Rightarrow> duration buf)"

subsection \<open>A sample platform and sample sessions\<close>

text \<open>
  Modelled from the spec: the decoder of the module \<^verbatim>\<open>utils/audio\<close>, which is not
  among the sources. The payload is base64 text for little-endian 16-bit mono samples at
  24 kHz; decoding fails on a byte length that is not a multiple of two; the duration of
  the buffer is the number of samples divided by the rate, as a number. Only the sample
  platform below uses it.
\<close>

definition base64_byte_length :: "string \<Rightarrow> nat" where
  "base64_byte_length b =
     (length b div 4) * 3 - length (takeWhile (\<lambda>c. c = CHR ''='') (rev b))"

definition decode_error :: js_error where
  "decode_error = \<lparr>message = Some ''byte length of Int16Array should be a multiple of 2'',
     toString = ''RangeError: byte length of Int16Array should be a multiple of 2''\<rparr>"

definition sample_decode :: "string \<Rightarrow> js_error + AudioBuffer" where
  "sample_decode b =
     (let n = base64_byte_length b in
      if odd n then Inl decode_error
      else Inr \<lparr>duration = to_double (real (n div 2) / 24000)\<rparr>)"

definition sample_env :: env where
  "sample_env =
     \<lparr>API_KEY = Some ''key'',
      getUserMedia = Inr \<lparr>stream_active = True, tracks = [0]\<rparr>,
      new_context_state = Suspended,
      decode = sample_decode,
      close_rejects = (\<lambda>k. None),
      track_stop_throws = (\<lambda>t. None),
      disconnect_throws = (\<lambda>n. None),
      source_stop_throws = (\<lambda>h. None)\<rparr>"

definition network_error :: js_error where
  "network_error = Error ''Failed to fetch''"


definition unauthenticated_error :: js_error where
  "unauthenticated_error = Error ''UNAUTHENTICATED: invalid credentials''"

text \<open>A session that has been started and whose connection has opened.\<close>

definition active_session :: state where
  "active_session =
     run sample_env init [SelectLanguage English, StartSession, ConnectSettled 0 None, Open]"


text \<open>
  The first attempt fails with a network error; half a second into the retry delay the
  user ends the call.
\<close>

definition stopped_while_waiting :: state where
  "stopped_while_waiting =
     run sample_env init
       [SelectLanguage English, StartSession,
        Elapse 150, ConnectSettled 0 (Some network_error), Elapse 500, UserStop]"

section \<open>Properties of the FLAMES game\<close>

lemma elimination_round_length:
  assumes "1 < length (snd st)"
  shows "length (snd (elimination_round count st)) + 1 = length (snd st)"
proof -
  from assms have "0 < length (snd st)" by linarith
  then have "(fst st + count - 1) mod length (snd st) < length (snd st)"
    by (rule mod_less_divisor)
  then show ?thesis
    by (simp add: elimination_round_def splice1_def Let_def min_def)
qed

lemma elimination_round_set:
  "set (snd (elimination_round count st)) \<subseteq> set (snd st)"
  by (auto simp: elimination_round_def splice1_def Let_def dest: in_set_takeD in_set_dropD)

lemma elimination_single:
  "snd st \<noteq> [] \<Longrightarrow> \<exists>c \<in> set (snd st). snd (elimination count st) = [c]"
proof (induction count st rule: elimination.induct)
  case (1 count st)
  show ?case
  proof (cases "1 < length (snd st)")
    case True
    then have "length (snd (elimination_round count st)) + 1 = length (snd st)"
      by (rule elimination_round_length)
    with True have "snd (elimination_round count st) \<noteq> []"
      by auto
    with "1.IH" True obtain c where c: "c \<in> set (snd (elimination_round count st))"
      "snd (elimination count (elimination_round count st)) = [c]"
      by blast
    from c(1) elimination_round_set have "c \<in> set (snd st)"
      by blast
    moreover from True c(2) have "snd (elimination count st) = [c]"
      by (subst elimination.simps) simp
    ultimately show ?thesis by blast
  next
    case False
    with "1.prems" obtain c where "snd st = [c]"
      by (cases "snd st") auto
    with False show ?thesis by (subst elimination.simps) simp
  qed
qed

lemma finalChar_in_FLAMES: "\<exists>c \<in> set splitFlames. finalChar count = Some c"
proof (cases "count > 0")
  case True
  have "snd (0::nat, splitFlames) \<noteq> []" by (simp add: splitFlames_def)
  from elimination_single [OF this, of count]
  show ?thesis using True by (auto simp: finalChar_def)
next
  case False
  then show ?thesis by (simp add: finalChar_def splitFlames_def)
qed

lemma flames_switch_status:
  "c \<in> set splitFlames \<Longrightarrow> fst (flames_switch (Some c)) \<in> flames_statuses"
  by (auto simp: splitFlames_def flames_switch_def flames_statuses_def)

lemma unknown_not_status: "''Unknown'' \<notin> flames_statuses"
  by (simp add: flames_statuses_def)

text \<open>
  Claim C9, as amended: for every pair of names that are non-empty after trimming white
  space (the guard of \<^verbatim>\<open>calculateFlames\<close>), the calculation produces a result whose
  status is one of Friends, Lovers, Affection, Marriage, Enemies, Siblings and never
  Unknown; its score is the overlap count; a count of 0 gives Siblings with score 0; for a
  positive count the elimination loop ends with exactly one category left, and every round
  of the loop removes exactly one category.
\<close>

theorem calculateFlames_status:
  assumes "trim (name1 s) \<noteq> []" and "trim (name2 s) \<noteq> []"
  shows "\<exists>r. result (calculateFlames s) = Some r
           \<and> status r \<in> flames_statuses \<and> status r \<noteq> ''Unknown''
           \<and> score r = flames_count (name1 s) (name2 s)
           \<and> (flames_count (name1 s) (name2 s) = 0 \<longrightarrow> status r = ''Siblings'' \<and> score r = 0)
           \<and> (0 < flames_count (name1 s) (name2 s) \<longrightarrow>
                length (snd (elimination (flames_count (name1 s) (name2 s)) (0, splitFlames))) = 1)
           \<and> (\<forall>st. 1 < length (snd st) \<longrightarrow>
                length (snd (elimination_round (flames_count (name1 s) (name2 s)) st)) + 1
                  = length (snd st))"
proof -
  define count where "count = flames_count (name1 s) (name2 s)"
  obtain c where c: "c \<in> set splitFlames" "finalChar count = Some c"
    using finalChar_in_FLAMES by blast
  define r where "r = \<lparr>status = fst (flames_switch (finalChar count)),
    description = snd (flames_switch (finalChar count)), score = count\<rparr>"
  have res: "result (calculateFlames s) = Some r"
    using assms by (simp add: calculateFlames_def Let_def r_def count_def split: prod.splits)
  have st: "status r \<in> flames_statuses"
    using c flames_switch_status by (simp add: r_def)
  have unk: "status r \<noteq> ''Unknown''"
    using st unknown_not_status by metis
  have zero: "count = 0 \<longrightarrow> status r = ''Siblings'' \<and> score r = 0"
    by (simp add: r_def finalChar_def flames_switch_def)
  have one: "0 < count \<longrightarrow> length (snd (elimination count (0, splitFlames))) = 1"
  proof
    assume "0 < count"
    have "snd (0::nat, splitFlames) \<noteq> []" by (simp add: splitFlames_def)
    from elimination_single [OF this, of count]
    show "length (snd (elimination count (0, splitFlames))) = 1" by auto
  qed
  have rounds: "\<forall>st. 1 < length (snd st) \<longrightarrow>
     length (snd (elimination_round count st)) + 1 = length (snd st)"
    using elimination_round_length by blast
  from res st unk zero one rounds show ?thesis
    unfolding count_def [symmetric] by (intro exI [of _ r]) (simp add: r_def)
qed



text \<open>
  The names \<^verbatim>\<open>"Ab"\<close> and \<^verbatim>\<open>"b a"\<close> pass the guard and cancel completely.
\<close>

theorem calculateFlames_status_witness:
  "trim ''Ab'' \<noteq> [] \<and> trim ''b a'' \<noteq> [] \<and> flames_count ''Ab'' ''b a'' = 0
   \<and> (\<exists>r. result (calculateFlames \<lparr>name1 = ''Ab'', name2 = ''b a'', result = None\<rparr>) = Some r
        \<and> status r = ''Siblings'' \<and> score r = 0)"
proof -
  have h1: "trim (name1 \<lparr>name1 = ''Ab'', name2 = ''b a'', result = None\<rparr>) \<noteq> []"
    by code_simp
  have h2: "trim (name2 \<lparr>name1 = ''Ab'', name2 = ''b a'', result = None\<rparr>) \<noteq> []"
    by code_simp
  have h3: "flames_count ''Ab'' ''b a'' = 0"
    by code_simp
  from calculateFlames_status [OF h1 h2] h1 h2 h3 show ?thesis
    by auto
qed

text \<open>
  Claim C9 as stated fails for a name that is not empty but blank: the guard returns before
  any result is set.
\<close>

theorem calculateFlames_blank_counterexample:
  "'' '' \<noteq> [] \<and> ''a'' \<noteq> []
   \<and> result (calculateFlames \<lparr>name1 = '' '', name2 = ''a'', result = None\<rparr>) = None"
  by (simp add: calculateFlames_def trim_def is_space_def)

section \<open>Properties of the session configuration\<close>

lemma sublist_skip: "sublist xs ys \<Longrightarrow> sublist xs (ps @ ys)"
  by (metis sublist_append_leftI sublist_order.order.trans)

lemma instruction_Mama:
  \<open>getSystemInstruction lang Mama =
      ([CHR 0x0A] @
        ''        You are "Mama", a wise, warm, and caring Indian man (like a supportive uncle or grandfather). '' @
        [CHR 0x0A] @
        ''        You speak '' @
        language_text lang @
        ''. '' @
        [CHR 0x0A] @
        ''        Your tone is grounded, respectful, and wise. '' @
        [CHR 0x0A] @
        ''        You give empathetic advice on life, personal growth, and general ideas.'' @
        [CHR 0x0A] @
        ''        CRITICAL: '') @ ''Your voice is MALE.'' @ '' '' @ (''Speak ONLY in '' @ language_text lang) @
        (''. Be a good listener.'' @ [CHR 0x0A] @ ''      '')\<close>
  by (simp add: getSystemInstruction_def)

lemma instruction_Love:
  \<open>getSystemInstruction lang Love =
      ([CHR 0x0A] @
        ''        You are "Priya", a sweet, realistic Indian girl. '' @
        [CHR 0x0A] @
        ''        You are helping the user practice "Love Speaking" or simply having a romantic, affectionate conversation.'' @
        [CHR 0x0A] @
        ''        You speak '' @
        language_text lang @
        ''.'' @
        [CHR 0x0A] @
        ''        Your tone is soft, slightly shy but engaging, and very affectionate.'' @
        [CHR 0x0A] @
        ''        CRITICAL: '') @ ''Your voice is FEMALE.'' @ '' '' @ (''Speak ONLY in '' @ language_text lang) @
        (''. Act like a loving partner or girlfriend.'' @ [CHR 0x0A] @ ''      '')\<close>
  by (simp add: getSystemInstruction_def)

lemma instruction_male:
  "js_includes (getSystemInstruction lang Mama) ''Your voice is MALE.''"
  unfolding js_includes_def instruction_Mama by (rule sublist_appendI)

lemma instruction_female:
  "js_includes (getSystemInstruction lang Love) ''Your voice is FEMALE.''"
  unfolding js_includes_def instruction_Love by (rule sublist_appendI)

lemma instruction_only_language:
  "js_includes (getSystemInstruction lang mode) (''Speak ONLY in '' @ language_text lang)"
proof (cases mode)
  case Mama
  show ?thesis
    unfolding js_includes_def Mama instruction_Mama
    by (intro sublist_skip sublist_append_rightI)
next
  case Love
  show ?thesis
    unfolding js_includes_def Love instruction_Love
    by (intro sublist_skip sublist_append_rightI)
qed

lemma instruction_language:
  "js_includes (getSystemInstruction lang mode) (language_text lang)"
proof -
  have "sublist (language_text lang) (''Speak ONLY in '' @ language_text lang)"
    by (rule sublist_append_leftI)
  with instruction_only_language [of lang mode] show ?thesis
    unfolding js_includes_def by (rule sublist_order.order.trans [rotated])
qed

section \<open>Properties of double arithmetic\<close>

lemma rte_bounds: "\<lfloor>q\<rfloor> \<le> rte q \<and> rte q \<le> \<lfloor>q\<rfloor> + 1"
  by (simp add: rte_def Let_def)

lemma rte_of_int [simp]: "rte (of_int n) = n"
  by (simp add: rte_def)

lemma binade:
  assumes "0 < y"
  shows "2 powr of_int \<lfloor>log 2 y\<rfloor> \<le> y \<and> y < 2 powr (of_int \<lfloor>log 2 y\<rfloor> + 1)"
  using floor_log_eq_powr_iff [of y 2 "\<lfloor>log 2 y\<rfloor>"] assms by simp

lemma ulp_exponent_ge: "- 1074 \<le> ulp_exponent y"
  by (simp add: ulp_exponent_def)

text \<open>The quotient by the unit in the last place is below \<open>2^53\<close>.\<close>

lemma quotient_less:
  assumes "0 < y"
  shows "y / 2 powr of_int (ulp_exponent y) < 2 ^ 53"
proof -
  define L where "L = \<lfloor>log 2 y\<rfloor>"
  define k where "k = ulp_exponent y"
  have "L - 52 \<le> k"
    using assms by (simp add: k_def L_def ulp_exponent_def)
  then have "(2::real) powr (of_int L + 1) \<le> 2 powr (of_int k + 53)"
    by (intro powr_mono) simp_all
  moreover have "y < 2 powr (of_int L + 1)"
    using binade [OF assms] by (simp add: L_def)
  ultimately have "y < 2 powr (of_int k + 53)" by linarith
  also have "\<dots> = 2 powr of_int k * 2 ^ 53"
    by (simp add: powr_add)
  finally show ?thesis
    by (simp add: k_def pos_divide_less_eq mult.commute)
qed

text \<open>
  The result of rounding a non-negative number is a non-negative multiple of a power of
  two, at an exponent of at least \<open>-1074\<close>, with at most 53 bits.
\<close>

lemma to_double_fits:
  assumes "0 \<le> y"
  shows "0 \<le> to_double y
     \<and> (\<exists>(n::int) (k::int). to_double y = of_int n * 2 powr of_int k \<and> - 1074 \<le> k
           \<and> to_double y \<le> 2 powr (of_int k + 53))"
proof (cases "y = 0")
  case True
  have "to_double y = of_int 0 * 2 powr of_int 0 \<and> - 1074 \<le> (0::int)
      \<and> to_double y \<le> 2 powr (of_int 0 + 53)"
    using True by (simp add: to_double_def)
  then show ?thesis using True by (auto simp: to_double_def intro: exI [of _ 0])
next
  case False
  with assms have pos: "0 < y" by simp
  define k where "k = ulp_exponent y"
  define u :: real where "u = 2 powr of_int k"
  define n where "n = rte (y / u)"
  have u: "0 < u" by (simp add: u_def)
  have td: "to_double y = of_int n * u"
    using False by (simp add: to_double_def n_def u_def k_def)
  have "0 \<le> y / u" using pos u by simp
  then have "0 \<le> \<lfloor>y / u\<rfloor>" by simp
  with rte_bounds [of "y / u"] have n0: "0 \<le> n" unfolding n_def by linarith
  have "y / u < 2 ^ 53"
    using quotient_less [OF pos] by (simp add: u_def k_def)
  then have "\<lfloor>y / u\<rfloor> < 2 ^ 53"
    by (simp add: floor_less_iff)
  with rte_bounds [of "y / u"] have "n \<le> 2 ^ 53" unfolding n_def by linarith
  then have "(of_int n :: real) \<le> 2 ^ 53"
    by (metis of_int_le_iff of_int_numeral of_int_power)
  then have "of_int n * u \<le> 2 ^ 53 * u"
    using u by simp
  also have "\<dots> = 2 powr (of_int k + 53)"
    by (simp add: u_def powr_add)
  finally have up: "to_double y \<le> 2 powr (of_int k + 53)"
    by (simp add: td)
  have "0 \<le> to_double y"
    using n0 u by (simp add: td)
  moreover have "to_double y = of_int n * 2 powr of_int k \<and> - 1074 \<le> k
      \<and> to_double y \<le> 2 powr (of_int k + 53)"
    using td up ulp_exponent_ge [of y] by (simp add: u_def k_def)
  ultimately show ?thesis by blast
qed

text \<open>Rounding never goes below a double that the number is not below.\<close>

lemma to_double_ge:
  fixes n k :: int
  assumes "0 \<le> x" and "x \<le> y" and "x = of_int n * 2 powr of_int k" and "- 1074 \<le> k"
    and "x \<le> 2 powr (of_int k + 53)"
  shows "x \<le> to_double y"
proof (cases "x = 0")
  case True
  with assms(1,2) to_double_fits [of y] show ?thesis by simp
next
  case False
  with assms(1,2) have pos: "0 < x" "0 < y" by simp_all
  define k' where "k' = ulp_exponent y"
  define u :: real where "u = 2 powr of_int k'"
  have u: "0 < u" by (simp add: u_def)
  have td: "to_double y = of_int (rte (y / u)) * u"
    using pos by (simp add: to_double_def u_def k'_def)
  have fl: "of_int \<lfloor>y / u\<rfloor> * u \<le> to_double y"
    using rte_bounds [of "y / u"] u by (simp add: td)
  show ?thesis
  proof (cases "k' \<le> k")
    case True
    define m where "m = n * 2 ^ nat (k - k')"
    have p: "(2::real) powr of_int (k - k') = 2 ^ nat (k - k')"
      using True by (subst powr_real_of_int) auto
    have "(2::real) powr of_int k = 2 powr of_int (k - k') * 2 powr of_int k'"
      by (simp add: powr_add [symmetric])
    then have x: "x = of_int m * u"
      using p by (simp add: assms(3) m_def u_def)
    with assms(2) u have "of_int m \<le> y / u"
      by (simp add: pos_le_divide_eq)
    then have "m \<le> \<lfloor>y / u\<rfloor>"
      by (simp add: le_floor_iff)
    then have "(of_int m :: real) \<le> of_int \<lfloor>y / u\<rfloor>"
      by simp
    with u have "of_int m * u \<le> of_int \<lfloor>y / u\<rfloor> * u"
      by simp
    with x fl show ?thesis by linarith
  next
    case False
    then have less: "k + 1 \<le> k'" by simp
    with assms(4) have "- 1074 < k'" by simp
    then have k': "k' = \<lfloor>log 2 y\<rfloor> - 52"
      using pos by (simp add: k'_def ulp_exponent_def max_def split: if_splits)
    have "2 powr (of_int k' + 52) \<le> y"
      using binade [OF pos(2)] by (simp add: k')
    moreover have "(2::real) powr (of_int k' + 52) = 2 ^ 52 * u"
      by (simp add: u_def powr_add)
    ultimately have "2 ^ 52 \<le> y / u"
      using u by (simp add: pos_le_divide_eq)
    then have "(2 ^ 52 :: int) \<le> \<lfloor>y / u\<rfloor>"
      by (simp add: le_floor_iff)
    then have "(2 ^ 52 :: real) \<le> of_int \<lfloor>y / u\<rfloor>"
      by (metis of_int_le_iff of_int_numeral of_int_power)
    with u have "2 ^ 52 * u \<le> of_int \<lfloor>y / u\<rfloor> * u"
      by simp
    moreover have "(2::real) powr (of_int k + 53) \<le> 2 powr (of_int k' + 52)"
      using less by (intro powr_mono) simp_all
    ultimately show ?thesis
      using assms(5) fl \<open>(2::real) powr (of_int k' + 52) = 2 ^ 52 * u\<close> by linarith
  qed
qed

lemma double_fits:
  assumes "is_double x" and "0 \<le> x"
  shows "\<exists>(n::int) (k::int). x = of_int n * 2 powr of_int k \<and> - 1074 \<le> k
           \<and> x \<le> 2 powr (of_int k + 53)"
  using to_double_fits [OF assms(2)] assms(1) by (simp add: is_double_def)

text \<open>Adding a non-negative number to a non-negative double, in double arithmetic.\<close>

lemma double_add_ge:
  assumes "is_double x" and "0 \<le> x" and "0 \<le> d"
  shows "x \<le> double_add x d"
proof -
  from double_fits [OF assms(1,2)] obtain n k :: int where
    "x = of_int n * 2 powr of_int k" "- 1074 \<le> k" "x \<le> 2 powr (of_int k + 53)"
    by blast
  with assms(2,3) show ?thesis
    unfolding double_add_def by (intro to_double_ge [where n = n and k = k]) simp_all
qed

text \<open>Rounding a number whose binade is known.\<close>

lemma to_double_eval:
  assumes "0 < y" and "2 powr of_int L \<le> y" and "y < 2 powr (of_int L + 1)"
  shows "to_double y
     = of_int (rte (y / 2 powr of_int (max (L - 52) (- 1074)))) * 2 powr of_int (max (L - 52) (- 1074))"
proof -
  have "\<lfloor>log 2 y\<rfloor> = L"
    using assms by (simp add: floor_log_eq_powr_iff)
  then show ?thesis
    using assms(1) by (simp add: to_double_def ulp_exponent_def)
qed

lemma to_double_eighth: "to_double (1 / 8) = 1 / 8"
  by (subst to_double_eval [where L = "- 3"]) (simp_all add: powr_minus rte_def Let_def)

lemma to_double_sample: "to_double (1 / 24000) = 6148914691236517 / 2 ^ 67"
  by (subst to_double_eval [where L = "- 15"]) (simp_all add: powr_minus rte_def Let_def)

lemma double_add_sample: "double_add (1 / 8) (6148914691236517 / 2 ^ 67) = 2252550413623143 / 2 ^ 54"
  unfolding double_add_def
  by (subst to_double_eval [where L = "- 3"]) (simp_all add: powr_minus rte_def Let_def)

lemma is_double_samples: "is_double 0" "is_double (1 / 8)"
  by (simp_all add: is_double_def to_double_eighth) (simp add: to_double_def)

section \<open>Properties of the session\<close>

subsection \<open>Evaluating sample sessions\<close>

lemmas handler_defs = startSession_def startSession_try_def startSession_catch_def
    new_context_def get_ctx_def set_ctx_def emit_def acquire_stream_def connectWithRetry_def connect_try_def
    connect_settled_def connect_catch_def timer_fired_def onopen_def resume_context_def disconnect_opt_def
    node_disconnect_def onmessage_def on_audio_def schedule_audio_def on_interrupted_def stop_all_sources_def
    source_stop_def onclose_def onerror_def on_ended_def onaudioprocess_def stopSession_def stop_tracks_def track_stop_def
    disconnect_nodes_def reset_after_stop_def close_context_def

lemma active_session_eq:
  "active_session =
     \<lparr>connected = True, error = None, isTalking = False, isRetrying = False,
      selectedLanguage = Some English, selectedMode = Mama,
      inputAudioContextRef = Some Running, outputAudioContextRef = Some Running,
      streamRef = Some \<lparr>stream_active = True, tracks = [0]\<rparr>,
      processorRef = Some 1, inputSourceRef = Some 0, sessionPromiseRef = Some 0,
      nextStartTimeRef = 0, aiClientRef = Some ''key'', sourcesRef = [],
      userInitiatedDisconnect = False, now_ms = 0, timers = [],
      connects = [\<lparr>call_attempt = 0, call_state = Fulfilled, deferred = [],
                   call_selection = (Some English, Mama)\<rparr>],
      listeners = [], fresh = 2,
      trace = [NewClient, NewAudioContext InputCtx 16000, NewAudioContext OutputCtx 24000,
        GetUserMedia, LiveConnect 0 0 (connect_config (Some English) Mama),
        ContextResume InputCtx, ContextResume OutputCtx, NodeConnect 0, NodeConnect 1],
      uncaught = []\<rparr>"
  by (simp add: active_session_def run_def step_def init_def sample_env_def handler_defs Let_def)

lemma sample_decode_odd: "decode sample_env ''AAAA'' = Inl decode_error"
  by (simp add: sample_env_def sample_decode_def base64_byte_length_def)

subsection \<open>Stopping the active sources\<close>

lemma forEach_source_stop:
  "forEach hs (\<lambda>h s'. try_catch (source_stop en h s') (\<lambda>e s''. Returns s'')) s
     = Returns (s\<lparr>trace := trace s @ map SourceStop hs\<rparr>)"
  by (induction hs arbitrary: s) (simp_all add: source_stop_def emit_def split: option.split)

lemma stop_all_sources_eq:
  "stop_all_sources en s = Returns (s\<lparr>trace := trace s @ map SourceStop (sourcesRef s)\<rparr>)"
  by (simp add: stop_all_sources_def forEach_source_stop)

lemma on_interrupted_eq:
  "on_interrupted en s =
     Returns (s\<lparr>trace := trace s @ map SourceStop (sourcesRef s),
                sourcesRef := [], nextStartTimeRef := 0, isTalking := False\<rparr>)"
  by (simp add: on_interrupted_def stop_all_sources_eq)

lemma on_audio_cases:
  "\<exists>s1 tr. on_audio en t b s = Returns s1 \<and> trace s1 = trace s @ tr
     \<and> set (sourcesRef s) \<subseteq> set (sourcesRef s1)"
  by (cases "decode en b")
     (auto simp: on_audio_def schedule_audio_def emit_def Let_def)

text \<open>
  Claim C5: in a session whose output context exists, a message carrying the interruption
  marker makes \<^verbatim>\<open>onmessage\<close> return with a stop call issued, after the state it was
  called in, to every source of the active set (whether or not a stop call throws), the
  set empty, the cursor 0 and the talking flag false; a message without audio adds exactly
  these stop calls; a second interruption returns the same state.
\<close>

theorem interruption_stops_all_sources:
  assumes "outputAudioContextRef s \<noteq> None" and "interrupted m"
  shows "\<exists>s'. onmessage en t m s = Returns s'
           \<and> (\<forall>h \<in> set (sourcesRef s). SourceStop h \<in> set (effects_since s s'))
           \<and> sourcesRef s' = [] \<and> nextStartTimeRef s' = 0 \<and> \<not> isTalking s'
           \<and> (data m = None \<longrightarrow> trace s' = trace s @ map SourceStop (sourcesRef s))
           \<and> onmessage en t' \<lparr>data = None, interrupted = True\<rparr> s' = Returns s'"
proof -
  obtain s1 tr where s1: "bind_c
          (case data m of
             None \<Rightarrow> Returns s
           | Some base64Audio \<Rightarrow>
               if base64Audio \<noteq> [] then on_audio en t base64Audio s else Returns s)
          (\<lambda>s'. Returns s') = Returns s1"
      "trace s1 = trace s @ tr" "set (sourcesRef s) \<subseteq> set (sourcesRef s1)"
      "data m = None \<longrightarrow> s1 = s"
      "outputAudioContextRef s1 = outputAudioContextRef s"
  proof (cases "data m")
    case None
    then show ?thesis using that [of s "[]"] by simp
  next
    case (Some b)
    show ?thesis
    proof (cases "b = []")
      case True
      with Some show ?thesis using that [of s "[]"] by simp
    next
      case False
      obtain s1 tr where a: "on_audio en t b s = Returns s1" "trace s1 = trace s @ tr"
        "set (sourcesRef s) \<subseteq> set (sourcesRef s1)"
        using on_audio_cases by blast
      have "outputAudioContextRef s1 = outputAudioContextRef s"
        using a(1) by (cases "decode en b")
          (auto simp: on_audio_def schedule_audio_def emit_def Let_def)
      with a Some False show ?thesis using that [of s1 tr] by simp
    qed
  qed
  define s' where "s' = s1\<lparr>trace := trace s1 @ map SourceStop (sourcesRef s1),
                sourcesRef := [], nextStartTimeRef := 0, isTalking := False\<rparr>"
  have run: "onmessage en t m s = Returns s'"
  proof -
    have "(case data m of
             None \<Rightarrow> Returns s
           | Some base64Audio \<Rightarrow>
               if base64Audio \<noteq> [] then on_audio en t base64Audio s else Returns s) = Returns s1"
      using s1(1) by (cases "(case data m of
             None \<Rightarrow> Returns s
           | Some base64Audio \<Rightarrow>
               if base64Audio \<noteq> [] then on_audio en t base64Audio s else Returns s)") simp_all
    then show ?thesis
      using assms by (auto simp: onmessage_def on_interrupted_eq s'_def)
  qed
  have stops: "\<forall>h \<in> set (sourcesRef s). SourceStop h \<in> set (effects_since s s')"
    using s1(2,3) by (auto simp: s'_def effects_since_def)
  have again: "onmessage en t' \<lparr>data = None, interrupted = True\<rparr> s' = Returns s'"
    using assms(1) s1(5) by (auto simp: onmessage_def on_interrupted_eq s'_def)
  have exact: "data m = None \<longrightarrow> trace s' = trace s @ map SourceStop (sourcesRef s)"
    using s1(4) by (auto simp: s'_def)
  from run stops again exact show ?thesis
    by (intro exI [of _ s']) (simp add: s'_def)
qed

text \<open>
  Two sources are playing in the sample session when the interruption arrives.
\<close>

theorem interruption_stops_all_sources_witness:
  "outputAudioContextRef (active_session\<lparr>sourcesRef := [2, 3], isTalking := True,
       nextStartTimeRef := 5\<rparr>) \<noteq> None
   \<and> interrupted \<lparr>data = None, interrupted = True\<rparr>
   \<and> onmessage sample_env 1 \<lparr>data = None, interrupted = True\<rparr>
        (active_session\<lparr>sourcesRef := [2, 3], isTalking := True, nextStartTimeRef := 5\<rparr>)
      = Returns (active_session\<lparr>sourcesRef := [], isTalking := False, nextStartTimeRef := 0,
          trace := trace active_session @ [SourceStop 2, SourceStop 3]\<rparr>)"
proof -
  let ?s = "active_session\<lparr>sourcesRef := [2, 3], isTalking := True, nextStartTimeRef := 5\<rparr>"
  let ?m = "\<lparr>data = None, interrupted = True\<rparr>"
  have h1: "outputAudioContextRef ?s \<noteq> None"
    by (simp add: active_session_eq)
  have h2: "interrupted ?m"
    by simp
  from interruption_stops_all_sources [OF h1 h2, of sample_env 1 1] obtain s' where
    "onmessage sample_env 1 ?m ?s = Returns s'" "sourcesRef s' = []"
    by blast
  then show ?thesis
    by (simp add: onmessage_def on_interrupted_eq active_session_eq)
qed

subsection \<open>Starting without a language\<close>

text \<open>
  Claim C10: with no language selected, \<^verbatim>\<open>startSession\<close> returns the state it was called
  in with only the error message changed, to \<^verbatim>\<open>Please select a language first.\<close>; in
  particular no effect is performed (no client, no audio context, no microphone request,
  no connection attempt) and no ref changes.
\<close>

theorem startSession_without_language:
  assumes "selectedLanguage s = None"
  shows "startSession en s = Returns (s\<lparr>error := Some ''Please select a language first.''\<rparr>)
         \<and> (\<exists>s'. startSession en s = Returns s'
               \<and> error s' = Some ''Please select a language first.''
               \<and> trace s' = trace s \<and> connects s' = connects s \<and> timers s' = timers s
               \<and> aiClientRef s' = aiClientRef s
               \<and> inputAudioContextRef s' = inputAudioContextRef s
               \<and> outputAudioContextRef s' = outputAudioContextRef s
               \<and> streamRef s' = streamRef s
               \<and> sessionPromiseRef s' = sessionPromiseRef s)"
  using assms by (simp add: startSession_def)

theorem startSession_without_language_witness:
  "selectedLanguage init = None
   \<and> startSession sample_env init
       = Returns (init\<lparr>error := Some ''Please select a language first.''\<rparr>)
   \<and> trace (step sample_env init StartSession) = []
   \<and> aiClientRef (step sample_env init StartSession) = None"
proof -
  have h: "selectedLanguage init = None"
    by (simp add: init_def)
  from startSession_without_language [OF h, of sample_env] show ?thesis
    using h by (simp add: step_def) (simp add: init_def)
qed

subsection \<open>A payload that does not decode\<close>

lemma on_audio_decode_failure:
  assumes "decode en b = Inl e"
  shows "on_audio en t b s =
     Returns (s\<lparr>isTalking := True, nextStartTimeRef := max (nextStartTimeRef s) t,
                trace := trace s @ [ConsoleError ''Audio decode error:'']\<rparr>)"
  using assms by (simp add: on_audio_def schedule_audio_def emit_def max_def Let_def)

text \<open>
  Claim C4, at the failing input: in the sample session, where nothing is playing and the
  talking flag is false, the payload \<^verbatim>\<open>AAAA\<close> (three bytes) does not decode. The handler
  returns, the error is logged, no source is scheduled and the session stays connected,
  but the talking flag is now true while the active set is empty.
\<close>

theorem malformed_audio_sets_talking:
  "decode sample_env ''AAAA'' = Inl decode_error
   \<and> \<not> isTalking active_session \<and> sourcesRef active_session = []
   \<and> onmessage sample_env 0 \<lparr>data = Some ''AAAA'', interrupted = False\<rparr> active_session
       = Returns (active_session\<lparr>isTalking := True,
           trace := trace active_session @ [ConsoleError ''Audio decode error:'']\<rparr>)
   \<and> isTalking (step sample_env active_session
         (Message 0 \<lparr>data = Some ''AAAA'', interrupted = False\<rparr>))
   \<and> sourcesRef (step sample_env active_session
         (Message 0 \<lparr>data = Some ''AAAA'', interrupted = False\<rparr>)) = []
   \<and> uncaught (step sample_env active_session
         (Message 0 \<lparr>data = Some ''AAAA'', interrupted = False\<rparr>)) = []"
proof -
  have m: "onmessage sample_env 0 \<lparr>data = Some ''AAAA'', interrupted = False\<rparr> active_session
       = Returns (active_session\<lparr>isTalking := True,
           trace := trace active_session @ [ConsoleError ''Audio decode error:'']\<rparr>)"
    by (simp add: onmessage_def on_audio_decode_failure [OF sample_decode_odd])
       (simp add: active_session_eq)
  show ?thesis
    by (simp add: step_def m sample_decode_odd) (simp add: active_session_eq)
qed

subsection \<open>The close event\<close>

text \<open>
  Claim C7, as amended: the close handler sets \<open>connected\<close> and \<open>isTalking\<close> to false and
  does nothing else: it performs no effect and leaves the capture pipeline (stream,
  contexts, source and processor nodes, session promise) as it was. A capture frame
  that arrives afterwards, on an installed processor and a fulfilled session promise, is
  still handed to \<^verbatim>\<open>sendRealtimeInput\<close>.
\<close>

theorem onclose_leaves_capture_running:
  "onclose s = Returns (s\<lparr>connected := False, isTalking := False\<rparr>)
   \<and> \<not> connected (step en s Close)
   \<and> trace (step en s Close) = trace s
   \<and> processorRef (step en s Close) = processorRef s
   \<and> streamRef (step en s Close) = streamRef s
   \<and> (processorRef s \<noteq> None \<and> sessionPromiseRef s = Some pid \<and> pid < length (connects s)
        \<and> call_state (connects s ! pid) = Fulfilled
       \<longrightarrow> step en (step en s Close) (AudioProcess frame)
           = (step en s Close)\<lparr>trace := trace s @ [SendRealtimeInput frame]\<rparr>)"
  by (auto simp: step_def onclose_def onaudioprocess_def emit_def)

theorem onclose_leaves_capture_running_witness:
  "processorRef active_session \<noteq> None \<and> sessionPromiseRef active_session = Some 0
   \<and> 0 < length (connects active_session)
   \<and> call_state (connects active_session ! 0) = Fulfilled
   \<and> step sample_env (step sample_env active_session Close) (AudioProcess [1, 2])
       = (step sample_env active_session Close)
           \<lparr>trace := trace active_session @ [SendRealtimeInput [1, 2]]\<rparr>"
proof -
  have h: "processorRef active_session \<noteq> None \<and> sessionPromiseRef active_session = Some 0
      \<and> 0 < length (connects active_session)
      \<and> call_state (connects active_session ! 0) = Fulfilled"
    by (simp add: active_session_eq)
  with onclose_leaves_capture_running [of active_session sample_env 0 "[1, 2]"]
  show ?thesis by blast
qed

text \<open>
  Claim C7 as stated fails in the sample session: after the close event the processor and
  the stream are still in place, no track was stopped and no node disconnected, and the
  next capture frame is sent.
\<close>

theorem onclose_capture_counterexample:
  "\<not> connected (run sample_env active_session [Close])
   \<and> processorRef (run sample_env active_session [Close]) = Some 1
   \<and> streamRef (run sample_env active_session [Close])
       = Some \<lparr>stream_active = True, tracks = [0]\<rparr>
   \<and> trace (run sample_env active_session [Close]) = trace active_session
   \<and> trace (run sample_env active_session [Close, AudioProcess [1, 2]])
       = trace active_session @ [SendRealtimeInput [1, 2]]"
  by (simp add: run_def step_def onclose_def onaudioprocess_def emit_def active_session_eq)

subsection \<open>Stopping the session\<close>

lemma connect_attempts_append:
  "connect_attempts (xs @ ys) = connect_attempts xs @ connect_attempts ys"
  by (induction xs rule: connect_attempts.induct) simp_all

lemma sent_configs_append:
  "sent_configs (xs @ ys) = sent_configs xs @ sent_configs ys"
  by (induction xs rule: sent_configs.induct) simp_all

lemma forEach_track_stop:
  assumes "\<forall>t \<in> set ts. track_stop_throws en t = None"
  shows "forEach ts (track_stop en) s = Returns (s\<lparr>trace := trace s @ map TrackStop ts\<rparr>)"
  using assms by (induction ts arbitrary: s) (simp_all add: track_stop_def emit_def)

lemma stop_tracks_eq:
  assumes "\<forall>t \<in> set (stream_tracks s). track_stop_throws en t = None"
  shows "stop_tracks en s = Returns (s\<lparr>trace := trace s @ map TrackStop (stream_tracks s)\<rparr>)"
  using assms by (simp add: stop_tracks_def stream_tracks_def forEach_track_stop split: option.split)

lemma disconnect_nodes_eq:
  "disconnect_nodes en s = Returns (s\<lparr>trace := trace s @ disconnect_effects en s\<rparr>)"
  by (auto simp: disconnect_nodes_def disconnect_opt_def node_disconnect_def emit_def
      disconnect_effects_def disconnect_effects_of_def split: option.split)

lemma close_context_eq:
  "close_context en k s =
     set_ctx k (map_option (\<lambda>st. Closed) (get_ctx k s))
       (s\<lparr>trace := trace s @ close_effects en k s\<rparr>)"
  by (cases k)
     (simp_all add: close_context_def close_effects_def get_ctx_def set_ctx_def emit_def Let_def
        split: option.split)

lemma stopSession_eq:
  assumes "\<forall>t \<in> set (stream_tracks s). track_stop_throws en t = None"
  shows "stopSession en s =
     Returns (reset_after_stop (s\<lparr>userInitiatedDisconnect := True,
                                  trace := trace s @ stop_effects en s\<rparr>))"
proof -
  define s3 where "s3 = close_context en OutputCtx
      (close_context en InputCtx (s\<lparr>userInitiatedDisconnect := True\<rparr>))"
  have s3: "s3 = s\<lparr>userInitiatedDisconnect := True,
       inputAudioContextRef := map_option (\<lambda>st. Closed) (inputAudioContextRef s),
       outputAudioContextRef := map_option (\<lambda>st. Closed) (outputAudioContextRef s),
       trace := trace s @ close_effects en InputCtx s @ close_effects en OutputCtx s\<rparr>"
    by (simp add: s3_def close_context_eq get_ctx_def set_ctx_def close_effects_def)
  have tr: "\<forall>t \<in> set (stream_tracks s3). track_stop_throws en t = None"
    using assms by (simp add: s3 stream_tracks_def)
  have "stopSession en s = bind_c (stop_tracks en s3)
           (\<lambda>s4. bind_c (disconnect_nodes en s4)
              (\<lambda>s5. bind_c (stop_all_sources en s5)
                 (\<lambda>s6. Returns (reset_after_stop s6))))"
    by (simp add: stopSession_def s3_def Let_def)
  also have "\<dots> = Returns (reset_after_stop (s\<lparr>userInitiatedDisconnect := True,
                                  trace := trace s @ stop_effects en s\<rparr>))"
    by (simp add: stop_tracks_eq [OF tr] disconnect_nodes_eq stop_all_sources_eq)
       (simp add: s3 reset_after_stop_def stop_effects_def stream_tracks_def
          disconnect_effects_def)
  finally show ?thesis .
qed


lemma stopSession_again:
  assumes "inputAudioContextRef s = None" and "outputAudioContextRef s = None"
    and "streamRef s = None" and "processorRef s = None" and "sessionPromiseRef s = None"
    and "nextStartTimeRef s = 0" and "sourcesRef s = []"
    and "\<not> connected s" and "\<not> isTalking s" and "\<not> isRetrying s"
    and "userInitiatedDisconnect s"
  shows "stopSession en s =
     Returns (s\<lparr>trace := trace s @ disconnect_effects_of en (inputSourceRef s) []\<rparr>)"
proof -
  have "\<forall>t \<in> set (stream_tracks s). track_stop_throws en t = None"
    using assms(3) by (simp add: stream_tracks_def)
  then have "stopSession en s =
     Returns (reset_after_stop (s\<lparr>userInitiatedDisconnect := True,
                                  trace := trace s @ stop_effects en s\<rparr>))"
    by (rule stopSession_eq)
  moreover have "stop_effects en s = disconnect_effects_of en (inputSourceRef s) []"
    using assms by (simp add: stop_effects_def close_effects_def get_ctx_def stream_tracks_def
        disconnect_effects_def disconnect_effects_of_def)
  moreover have "reset_after_stop (s\<lparr>userInitiatedDisconnect := True, trace := tr\<rparr>)
      = s\<lparr>trace := tr\<rparr>" for tr
    using assms by (intro state.equality) (simp_all add: reset_after_stop_def)
  ultimately show ?thesis by simp
qed

text \<open>
  A throw of \<^verbatim>\<open>track.stop()\<close> is in no \<^verbatim>\<open>try\<close> block: it leaves \<^verbatim>\<open>stopSession\<close> before
  the refs are reset.
\<close>

lemma stopSession_track_stop_throws:
  assumes "streamRef s = Some ms" and "tracks ms = t # ts" and "track_stop_throws en t = Some e"
  shows "\<exists>s'. stopSession en s = Throws e s' \<and> streamRef s' = Some ms"
  using assms
  by (simp add: stopSession_def stop_tracks_def close_context_eq set_ctx_def get_ctx_def
      track_stop_def emit_def Let_def split: ctx_kind.split)

text \<open>
  Claim C8, as amended: provided no \<^verbatim>\<open>track.stop()\<close> call throws (the one release
  operation that is in no \<^verbatim>\<open>try\<close> block), \<^verbatim>\<open>stopSession\<close> returns whatever the other
  release operations do: rejected closes and throwing disconnects are caught and logged,
  throwing source stops are caught and ignored. The calls made are exactly
  \<^const>\<open>stop_effects\<close>: every context that is not closed is closed, every track and every
  active source is stopped, the processor node is disconnected, and so is the input
  source node unless the processor's disconnect threw. Afterwards the stop flag is set,
  the context, stream, processor and session-promise refs are null, the cursor is 0, the
  source set is empty and \<open>connected\<close>, \<open>isTalking\<close> and \<open>isRetrying\<close> are false. A second
  stop, on any platform, returns too and changes nothing but the trace of calls.
\<close>

theorem stopSession_completes:
  assumes "\<forall>t \<in> set (stream_tracks s). track_stop_throws en t = None"
  shows "\<exists>s'. stopSession en s = Returns s'
     \<and> effects_since s s' = stop_effects en s
     \<and> (\<forall>k st. get_ctx k s = Some st \<and> st \<noteq> Closed \<longrightarrow> ContextClose k \<in> set (effects_since s s'))
     \<and> (\<forall>t \<in> set (stream_tracks s). TrackStop t \<in> set (effects_since s s'))
     \<and> (\<forall>n. processorRef s = Some n \<longrightarrow> NodeDisconnect n \<in> set (effects_since s s'))
     \<and> (\<forall>n. inputSourceRef s = Some n
            \<and> (\<forall>p. processorRef s = Some p \<longrightarrow> disconnect_throws en p = None)
          \<longrightarrow> NodeDisconnect n \<in> set (effects_since s s'))
     \<and> (\<forall>h \<in> set (sourcesRef s). SourceStop h \<in> set (effects_since s s'))
     \<and> userInitiatedDisconnect s'
     \<and> inputAudioContextRef s' = None \<and> outputAudioContextRef s' = None
     \<and> streamRef s' = None \<and> processorRef s' = None \<and> sessionPromiseRef s' = None
     \<and> nextStartTimeRef s' = 0 \<and> sourcesRef s' = []
     \<and> \<not> connected s' \<and> \<not> isTalking s' \<and> \<not> isRetrying s'
     \<and> (\<exists>tr. stopSession en' s' = Returns (s'\<lparr>trace := trace s' @ tr\<rparr>))"
proof -
  define s' where "s' = reset_after_stop (s\<lparr>userInitiatedDisconnect := True,
                                  trace := trace s @ stop_effects en s\<rparr>)"
  have ret: "stopSession en s = Returns s'"
    unfolding s'_def using assms by (rule stopSession_eq)
  have eff: "effects_since s s' = stop_effects en s"
    by (simp add: effects_since_def s'_def reset_after_stop_def)
  have closes: "\<forall>k st. get_ctx k s = Some st \<and> st \<noteq> Closed \<longrightarrow> ContextClose k \<in> set (stop_effects en s)"
  proof (intro allI impI)
    fix k st assume "get_ctx k s = Some st \<and> st \<noteq> Closed"
    then have "ContextClose k \<in> set (close_effects en k s)"
      by (simp add: close_effects_def)
    then show "ContextClose k \<in> set (stop_effects en s)"
      by (cases k) (simp_all add: stop_effects_def)
  qed
  have tracks: "\<forall>t \<in> set (stream_tracks s). TrackStop t \<in> set (stop_effects en s)"
    by (simp add: stop_effects_def)
  have proc: "\<forall>n. processorRef s = Some n \<longrightarrow> NodeDisconnect n \<in> set (stop_effects en s)"
    by (simp add: stop_effects_def disconnect_effects_def disconnect_effects_of_def)
  have src: "\<forall>n. inputSourceRef s = Some n
            \<and> (\<forall>p. processorRef s = Some p \<longrightarrow> disconnect_throws en p = None)
          \<longrightarrow> NodeDisconnect n \<in> set (stop_effects en s)"
    by (auto simp: stop_effects_def disconnect_effects_def disconnect_effects_of_def
        split: option.split)
  have sources: "\<forall>h \<in> set (sourcesRef s). SourceStop h \<in> set (stop_effects en s)"
    by (simp add: stop_effects_def)
  have fields: "userInitiatedDisconnect s'
     \<and> inputAudioContextRef s' = None \<and> outputAudioContextRef s' = None
     \<and> streamRef s' = None \<and> processorRef s' = None \<and> sessionPromiseRef s' = None
     \<and> nextStartTimeRef s' = 0 \<and> sourcesRef s' = []
     \<and> \<not> connected s' \<and> \<not> isTalking s' \<and> \<not> isRetrying s'"
    by (simp add: s'_def reset_after_stop_def)
  then have "stopSession en' s' =
     Returns (s'\<lparr>trace := trace s' @ disconnect_effects_of en' (inputSourceRef s') []\<rparr>)"
    by (intro stopSession_again) simp_all
  then have again: "\<exists>tr. stopSession en' s' = Returns (s'\<lparr>trace := trace s' @ tr\<rparr>)"
    by blast
  from ret eff closes tracks proc src sources fields again show ?thesis
    by (intro exI [of _ s']) simp
qed

text \<open>
  The user ends the sample session: the one track is stopped, both contexts are closed,
  both nodes are disconnected.
\<close>

theorem stopSession_completes_witness:
  "stream_tracks active_session = [0] \<and> track_stop_throws sample_env 0 = None
   \<and> (\<exists>s'. stopSession sample_env active_session = Returns s'
         \<and> effects_since active_session s'
            = [ContextClose InputCtx, ContextClose OutputCtx, TrackStop 0,
               NodeDisconnect 1, NodeDisconnect 0]
         \<and> streamRef s' = None \<and> processorRef s' = None \<and> \<not> connected s')"
proof -
  have t: "stream_tracks active_session = [0]"
    by (simp add: stream_tracks_def active_session_eq)
  have n: "track_stop_throws sample_env 0 = None"
    by (simp add: sample_env_def)
  have h: "\<forall>t \<in> set (stream_tracks active_session). track_stop_throws sample_env t = None"
    using t n by simp
  have e: "stop_effects sample_env active_session
      = [ContextClose InputCtx, ContextClose OutputCtx, TrackStop 0,
         NodeDisconnect 1, NodeDisconnect 0]"
    by (simp add: stop_effects_def close_effects_def get_ctx_def t disconnect_effects_def
        disconnect_effects_of_def sample_env_def) (simp add: active_session_eq)
  from stopSession_completes [OF h, of sample_env] t n e show ?thesis
    by auto
qed

text \<open>
  Claim C8 as stated fails on the refs: after the user ends the sample session, the input
  source node and the client are still held.
\<close>

theorem stopSession_refs_counterexample:
  "uncaught (step sample_env active_session UserStop) = []
   \<and> inputSourceRef (step sample_env active_session UserStop) = Some 0
   \<and> aiClientRef (step sample_env active_session UserStop) = Some ''key''
   \<and> processorRef (step sample_env active_session UserStop) = None"
proof -
  have "\<forall>t \<in> set (stream_tracks active_session). track_stop_throws sample_env t = None"
    by (simp add: sample_env_def)
  from stopSession_eq [OF this] show ?thesis
    by (simp add: step_def reset_after_stop_def) (simp add: active_session_eq)
qed

subsection \<open>Gapless playback\<close>

lemma start_times_append: "start_times (xs @ ys) = start_times xs @ start_times ys"
  by (induction xs rule: start_times.induct) simp_all

lemma step_audio_event:
  assumes "outputAudioContextRef s \<noteq> None" and "b \<noteq> []" and "decode en b = Inr buf"
  shows "step en s (audio_event (t, b)) =
     s\<lparr>isTalking := True,
       fresh := fresh s + 1,
       listeners := listeners s @ [fresh s],
       trace := trace s @ [SourceStart (fresh s) (max (nextStartTimeRef s) t)],
       nextStartTimeRef := double_add (max (nextStartTimeRef s) t) (duration buf),
       sourcesRef := (if fresh s \<in> set (sourcesRef s) then sourcesRef s
                      else sourcesRef s @ [fresh s])\<rparr>"
  using assms
  by (auto simp: step_def audio_event_def onmessage_def on_audio_def schedule_audio_def
      emit_def Let_def max_def)

lemma run_Cons: "run en s (ev # evs) = run en (step en s ev) evs"
  by (simp add: run_def)

lemma run_audio_events:
  assumes "outputAudioContextRef s \<noteq> None"
    and "\<forall>p \<in> set ms. snd p \<noteq> [] \<and> (\<exists>buf. decode en (snd p) = Inr buf)"
  shows "\<exists>tr. trace (run en s (map audio_event ms)) = trace s @ tr
      \<and> start_times tr
          = spec_starts (nextStartTimeRef s) (map (\<lambda>p. (fst p, buffer_duration en (snd p))) ms)
      \<and> nextStartTimeRef (run en s (map audio_event ms))
          = spec_cursor (nextStartTimeRef s) (map (\<lambda>p. (fst p, buffer_duration en (snd p))) ms)"
  using assms
proof (induction ms arbitrary: s)
  case Nil
  then show ?case by (simp add: run_def)
next
  case (Cons p ms)
  obtain t b where p: "p = (t, b)" by (cases p)
  from Cons.prems(2) p obtain buf where b: "b \<noteq> []" "decode en b = Inr buf"
    by auto
  define s1 where "s1 = step en s (audio_event (t, b))"
  have s1: "s1 = s\<lparr>isTalking := True,
       fresh := fresh s + 1,
       listeners := listeners s @ [fresh s],
       trace := trace s @ [SourceStart (fresh s) (max (nextStartTimeRef s) t)],
       nextStartTimeRef := double_add (max (nextStartTimeRef s) t) (duration buf),
       sourcesRef := (if fresh s \<in> set (sourcesRef s) then sourcesRef s
                      else sourcesRef s @ [fresh s])\<rparr>"
    unfolding s1_def using Cons.prems(1) b by (rule step_audio_event)
  have out: "outputAudioContextRef s1 \<noteq> None"
    using Cons.prems(1) by (simp add: s1)
  have rest: "\<forall>p \<in> set ms. snd p \<noteq> [] \<and> (\<exists>buf. decode en (snd p) = Inr buf)"
    using Cons.prems(2) by simp
  from Cons.IH [OF out rest] obtain tr where tr:
    "trace (run en s1 (map audio_event ms)) = trace s1 @ tr"
    "start_times tr
       = spec_starts (nextStartTimeRef s1) (map (\<lambda>p. (fst p, buffer_duration en (snd p))) ms)"
    "nextStartTimeRef (run en s1 (map audio_event ms))
       = spec_cursor (nextStartTimeRef s1) (map (\<lambda>p. (fst p, buffer_duration en (snd p))) ms)"
    by blast
  have d: "buffer_duration en b = duration buf"
    using b by (simp add: buffer_duration_def)
  have r: "run en s (map audio_event (p # ms)) = run en s1 (map audio_event ms)"
    by (simp add: run_Cons s1_def p)
  show ?case
    unfolding r
    by (intro exI [of _ "SourceStart (fresh s) (max (nextStartTimeRef s) t) # tr"])
       (simp add: tr p d, simp add: s1)
qed

lemma spec_starts_length: "length (spec_starts c ds) = length ds"
  by (induction c ds rule: spec_starts.induct) simp_all

lemma spec_starts_nth:
  assumes "i < length ds"
  shows "spec_starts c ds ! i = max (spec_cursor c (take i ds)) (fst (ds ! i))
       \<and> spec_cursor c (take (Suc i) ds) = double_add (spec_starts c ds ! i) (snd (ds ! i))"
  using assms
proof (induction c ds arbitrary: i rule: spec_starts.induct)
  case (1 c)
  then show ?case by simp
next
  case (2 c t d r)
  then show ?case by (cases i) simp_all
qed

text \<open>
  One step of the schedule in double arithmetic. The cursor, when it is not negative, is a
  double; the clock is a non-negative double; the duration is not negative. Then the new
  cursor is not below the start time, and it is a non-negative double again.
\<close>

lemma enqueue_step:
  assumes c: "0 \<le> c \<longrightarrow> (\<exists>(n::int) (k::int). c = of_int n * 2 powr of_int k \<and> - 1074 \<le> k
                    \<and> c \<le> 2 powr (of_int k + 53))"
    and t: "0 \<le> t" "is_double t" and d: "0 \<le> d"
  shows "max c t \<le> double_add (max c t) d"
    and "0 \<le> double_add (max c t) d \<longrightarrow>
         (\<exists>(n::int) (k::int). double_add (max c t) d = of_int n * 2 powr of_int k \<and> - 1074 \<le> k
            \<and> double_add (max c t) d \<le> 2 powr (of_int k + 53))"
proof -
  have m0: "0 \<le> max c t"
    using t(1) by simp
  have "\<exists>(n::int) (k::int). max c t = of_int n * 2 powr of_int k \<and> - 1074 \<le> k
          \<and> max c t \<le> 2 powr (of_int k + 53)"
  proof (cases "t \<le> c")
    case True
    with t(1) have "max c t = c" "0 \<le> c" by simp_all
    with c show ?thesis by simp
  next
    case False
    then have "max c t = t" by simp
    with double_fits [OF t(2,1)] show ?thesis by simp
  qed
  then obtain n k :: int where nk: "max c t = of_int n * 2 powr of_int k" "- 1074 \<le> k"
    "max c t \<le> 2 powr (of_int k + 53)"
    by blast
  have "max c t \<le> max c t + d"
    using d by simp
  from to_double_ge [OF m0 this nk] show "max c t \<le> double_add (max c t) d"
    by (simp add: double_add_def)
  from m0 d have "0 \<le> max c t + d" by simp
  from to_double_fits [OF this]
  show "0 \<le> double_add (max c t) d \<longrightarrow>
         (\<exists>(n::int) (k::int). double_add (max c t) d = of_int n * 2 powr of_int k \<and> - 1074 \<le> k
            \<and> double_add (max c t) d \<le> 2 powr (of_int k + 53))"
    by (simp add: double_add_def)
qed

lemma spec_starts_lower:
  assumes "x \<in> set (spec_starts c ds)"
    and "0 \<le> c \<longrightarrow> (\<exists>(n::int) (k::int). c = of_int n * 2 powr of_int k \<and> - 1074 \<le> k
                    \<and> c \<le> 2 powr (of_int k + 53))"
    and "\<forall>p \<in> set ds. 0 \<le> fst p \<and> is_double (fst p) \<and> 0 \<le> snd p"
  shows "c \<le> x"
  using assms
proof (induction c ds rule: spec_starts.induct)
  case (1 c)
  then show ?case by simp
next
  case (2 c t d r)
  from "2.prems"(3) have t: "0 \<le> t" "is_double t" and d: "0 \<le> d"
    and rest: "\<forall>p \<in> set r. 0 \<le> fst p \<and> is_double (fst p) \<and> 0 \<le> snd p"
    by simp_all
  note st = enqueue_step [OF "2.prems"(2) t d]
  from "2.prems"(1) consider "x = max c t" | "x \<in> set (spec_starts (double_add (max c t) d) r)"
    by auto
  then show ?case
  proof cases
    case 1
    then show ?thesis by simp
  next
    case 2
    from "2.IH" [OF this st(2) rest] st(1) show ?thesis
      by simp
  qed
qed

lemma spec_starts_sorted:
  assumes "0 \<le> c \<longrightarrow> (\<exists>(n::int) (k::int). c = of_int n * 2 powr of_int k \<and> - 1074 \<le> k
                    \<and> c \<le> 2 powr (of_int k + 53))"
    and "\<forall>p \<in> set ds. 0 \<le> fst p \<and> is_double (fst p) \<and> 0 \<le> snd p"
  shows "sorted (spec_starts c ds)"
  using assms
proof (induction c ds rule: spec_starts.induct)
  case (1 c)
  then show ?case by simp
next
  case (2 c t d r)
  from "2.prems"(2) have t: "0 \<le> t" "is_double t" and d: "0 \<le> d"
    and rest: "\<forall>p \<in> set r. 0 \<le> fst p \<and> is_double (fst p) \<and> 0 \<le> snd p"
    by simp_all
  note st = enqueue_step [OF "2.prems"(1) t d]
  have tail: "sorted (spec_starts (double_add (max c t) d) r)"
    using st(2) rest by (rule "2.IH")
  have lower: "\<forall>x \<in> set (spec_starts (double_add (max c t) d) r). max c t \<le> x"
  proof
    fix x assume "x \<in> set (spec_starts (double_add (max c t) d) r)"
    then have "double_add (max c t) d \<le> x"
      using st(2) rest by (rule spec_starts_lower)
    with st(1) show "max c t \<le> x" by linarith
  qed
  have "spec_starts c ((t, d) # r) = max c t # spec_starts (double_add (max c t) d) r"
    by simp
  with tail lower show ?case
    by (simp only: sorted_simps)
qed

text \<open>
  Claim C2, in the arithmetic of the code, where times are doubles and \<^verbatim>\<open>+=\<close> is
  \<^const>\<open>double_add\<close>. Let audio messages arrive one after the other, with nothing else in
  between, in a session whose output context exists and whose cursor is a double, each at
  a clock time that is a non-negative double and with a payload decoding to a buffer of
  non-negative duration. Then one source is started per message; the start time of each
  is the maximum of the cursor and the output clock at that message, and the cursor
  afterwards is the sum of that start time and the buffer's duration as the code computes
  it, the double nearest to the exact sum; the start times are non-decreasing; and
  whenever a message arrives no later than the end of the previous buffer (the exact sum,
  or the computed one), its buffer starts at the computed sum of the previous start time
  and duration: the equality \<^verbatim>\<open>buffer[i+1].start == buffer[i].start + buffer[i].duration\<close>
  holds as the code evaluates it.
\<close>

theorem gapless_schedule:
  assumes out: "outputAudioContextRef s \<noteq> None"
    and cur: "is_double (nextStartTimeRef s)"
    and ok: "\<forall>p \<in> set ms. 0 \<le> fst p \<and> is_double (fst p) \<and> snd p \<noteq> []
              \<and> (\<exists>buf. decode en (snd p) = Inr buf \<and> 0 \<le> duration buf)"
  shows "\<exists>starts. start_times (effects_since s (run en s (map audio_event ms))) = starts
     \<and> length starts = length ms
     \<and> (\<forall>i < length ms.
           starts ! i
             = max (nextStartTimeRef (run en s (map audio_event (take i ms)))) (fst (ms ! i))
         \<and> nextStartTimeRef (run en s (map audio_event (take (Suc i) ms)))
             = double_add (starts ! i) (buffer_duration en (snd (ms ! i))))
     \<and> sorted starts
     \<and> (\<forall>i. Suc i < length ms
              \<and> (fst (ms ! Suc i) \<le> starts ! i + buffer_duration en (snd (ms ! i))
                 \<or> fst (ms ! Suc i)
                     \<le> double_add (starts ! i) (buffer_duration en (snd (ms ! i))))
           \<longrightarrow> starts ! Suc i = double_add (starts ! i) (buffer_duration en (snd (ms ! i))))"
proof -
  define f where "f = (\<lambda>p :: real \<times> string. (fst p, buffer_duration en (snd p)))"
  define c where "c = nextStartTimeRef s"
  define starts where "starts = spec_starts c (map f ms)"
  have dec: "\<forall>p \<in> set ms. snd p \<noteq> [] \<and> (\<exists>buf. decode en (snd p) = Inr buf)"
    using ok by blast
  have cursor: "nextStartTimeRef (run en s (map audio_event (take n ms)))
      = spec_cursor c (take n (map f ms))" for n
  proof -
    have "\<forall>p \<in> set (take n ms). snd p \<noteq> [] \<and> (\<exists>buf. decode en (snd p) = Inr buf)"
      using dec by (meson in_set_takeD)
    from run_audio_events [OF out this] show ?thesis
      by (auto simp: f_def c_def take_map)
  qed
  from run_audio_events [OF out dec] obtain tr where
    tr: "trace (run en s (map audio_event ms)) = trace s @ tr" "start_times tr = starts"
    by (auto simp: starts_def f_def c_def)
  have eff: "start_times (effects_since s (run en s (map audio_event ms))) = starts"
    by (simp add: effects_since_def tr)
  have len: "length starts = length ms"
    by (simp add: starts_def spec_starts_length)
  have nth: "starts ! i = max (nextStartTimeRef (run en s (map audio_event (take i ms)))) (fst (ms ! i))
       \<and> nextStartTimeRef (run en s (map audio_event (take (Suc i) ms)))
            = double_add (starts ! i) (buffer_duration en (snd (ms ! i)))"
    if "i < length ms" for i
  proof -
    from that have "i < length (map f ms)" by simp
    from spec_starts_nth [OF this, of c] that show ?thesis
      by (simp add: cursor starts_def) (simp add: f_def)
  qed
  have good: "0 \<le> c \<longrightarrow> (\<exists>(n::int) (k::int). c = of_int n * 2 powr of_int k \<and> - 1074 \<le> k
                    \<and> c \<le> 2 powr (of_int k + 53))"
    using double_fits [of c] cur by (simp add: c_def)
  have nonneg: "\<forall>p \<in> set (map f ms). 0 \<le> fst p \<and> is_double (fst p) \<and> 0 \<le> snd p"
    using ok by (auto simp: f_def buffer_duration_def)
  have srt: "sorted starts"
    unfolding starts_def using good nonneg by (rule spec_starts_sorted)
  have gap: "starts ! Suc i = double_add (starts ! i) (buffer_duration en (snd (ms ! i)))"
    if i: "Suc i < length ms"
      and before: "fst (ms ! Suc i) \<le> starts ! i + buffer_duration en (snd (ms ! i))
                 \<or> fst (ms ! Suc i)
                     \<le> double_add (starts ! i) (buffer_duration en (snd (ms ! i)))" for i
  proof -
    define t where "t = fst (ms ! Suc i)"
    define d where "d = buffer_duration en (snd (ms ! i))"
    from i have "ms ! Suc i \<in> set ms" by simp
    with ok have t: "0 \<le> t" "is_double t"
      unfolding t_def by blast+
    have le: "t \<le> double_add (starts ! i) d"
    proof (cases "t \<le> starts ! i + d")
      case True
      from double_fits [OF t(2,1)] obtain n k :: int where
        "t = of_int n * 2 powr of_int k" "- 1074 \<le> k" "t \<le> 2 powr (of_int k + 53)"
        by blast
      from to_double_ge [OF t(1) True this] show ?thesis
        by (simp add: double_add_def)
    next
      case False
      with before show ?thesis by (simp add: t_def d_def)
    qed
    from i have "i < length ms" by simp
    from nth [OF this] nth [OF i] le show ?thesis
      by (simp add: t_def d_def)
  qed
  from eff len nth srt gap show ?thesis
    by (intro exI [of _ starts]) blast
qed

text \<open>
  Two payloads of one sample each reach the sample session at clock time 1/8, the second
  while the first still plays. A buffer of one sample lasts the double nearest to
  1/24000 s; the second start time is the double nearest to the sum, which is not the
  exact sum.
\<close>

lemma sample_decode_one:
  "decode sample_env ''AAA='' = Inr \<lparr>duration = 6148914691236517 / 2 ^ 67\<rparr>"
  by (simp add: sample_env_def sample_decode_def base64_byte_length_def to_double_sample)

theorem gapless_schedule_witness:
  "outputAudioContextRef active_session \<noteq> None
   \<and> is_double (nextStartTimeRef active_session) \<and> is_double (1 / 8)
   \<and> decode sample_env ''AAA='' = Inr \<lparr>duration = 6148914691236517 / 2 ^ 67\<rparr>
   \<and> start_times (effects_since active_session
        (run sample_env active_session
           (map audio_event [(1 / 8, ''AAA=''), (1 / 8, ''AAA='')])))
      = [1 / 8, 2252550413623143 / 2 ^ 54]
   \<and> double_add (1 / 8) (6148914691236517 / 2 ^ 67) = 2252550413623143 / 2 ^ 54
   \<and> (2252550413623143 / 2 ^ 54 :: real) \<noteq> 1 / 8 + 6148914691236517 / 2 ^ 67
   \<and> sorted (start_times (effects_since active_session
        (run sample_env active_session
           (map audio_event [(1 / 8, ''AAA=''), (1 / 8, ''AAA='')]))))"
proof -
  let ?ms = "[(1 / 8, ''AAA=''), (1 / 8, ''AAA='')] :: (real \<times> string) list"
  have out: "outputAudioContextRef active_session \<noteq> None"
    by (simp add: active_session_eq)
  have n0: "nextStartTimeRef active_session = 0"
    by (simp add: active_session_eq)
  have cur: "is_double (nextStartTimeRef active_session)"
    by (simp add: n0 is_double_samples)
  have ok: "\<forall>p \<in> set ?ms. 0 \<le> fst p \<and> is_double (fst p) \<and> snd p \<noteq> []
              \<and> (\<exists>buf. decode sample_env (snd p) = Inr buf \<and> 0 \<le> duration buf)"
    by (simp add: sample_decode_one is_double_samples)
  have d: "buffer_duration sample_env ''AAA='' = 6148914691236517 / 2 ^ 67"
    by (simp add: buffer_duration_def sample_decode_one)
  from gapless_schedule [OF out cur ok] obtain starts where
    s: "start_times (effects_since active_session (run sample_env active_session
          (map audio_event ?ms))) = starts"
      "length starts = length ?ms"
      "\<forall>i < length ?ms.
           starts ! i
             = max (nextStartTimeRef (run sample_env active_session
                  (map audio_event (take i ?ms)))) (fst (?ms ! i))
         \<and> nextStartTimeRef (run sample_env active_session (map audio_event (take (Suc i) ?ms)))
             = double_add (starts ! i) (buffer_duration sample_env (snd (?ms ! i)))"
      "sorted starts"
    by blast
  from s(3) [rule_format, of 0] have s0: "starts ! 0 = 1 / 8"
    by (simp add: run_def n0)
  from s(3) [rule_format, of 0]
  have "nextStartTimeRef (run sample_env active_session (map audio_event (take (Suc 0) ?ms)))
       = double_add (starts ! 0) (6148914691236517 / 2 ^ 67)"
    using d by simp
  then have c1: "nextStartTimeRef (run sample_env active_session
        (map audio_event (take (Suc 0) ?ms))) = 2252550413623143 / 2 ^ 54"
    unfolding s0 double_add_sample .
  from s(3) [rule_format, of 1]
  have "starts ! 1 = max (nextStartTimeRef (run sample_env active_session
                  (map audio_event (take (Suc 0) ?ms)))) (1 / 8)"
    by simp
  then have s1: "starts ! 1 = 2252550413623143 / 2 ^ 54"
    unfolding c1 by simp
  from s(2) s0 s1 have eq: "starts = [1 / 8, 2252550413623143 / 2 ^ 54]"
    by (cases starts; cases "tl starts") auto
  have srt: "sorted (start_times (effects_since active_session
        (run sample_env active_session (map audio_event ?ms))))"
    using s(1,4) by simp
  have neq: "(2252550413623143 / 2 ^ 54 :: real) \<noteq> 1 / 8 + 6148914691236517 / 2 ^ 67"
    by simp
  from out cur is_double_samples(2) sample_decode_one s(1) [unfolded eq] double_add_sample neq srt
  show ?thesis
    by (intro conjI)
qed

subsection \<open>The retry policy\<close>

lemma network_error_transient: "\<not> isFatal network_error"
  by code_simp





lemma track_stop_None:
  "track_stop_throws en t = None \<Longrightarrow> track_stop en t s = Returns (emit (TrackStop t) s)"
  by (simp add: track_stop_def)

lemma track_stop_Some:
  "track_stop_throws en t = Some e \<Longrightarrow> track_stop en t s = Throws e (emit (TrackStop t) s)"
  by (simp add: track_stop_def)

lemma forEach_track_stop_any:
  "\<exists>tr. state_of (forEach ts (track_stop en) s) = s\<lparr>trace := trace s @ tr\<rparr>
     \<and> connect_attempts tr = []"
proof (induction ts arbitrary: s)
  case Nil
  show ?case by (intro exI [of _ "[]"]) simp
next
  case (Cons t ts)
  show ?case
  proof (cases "track_stop_throws en t")
    case None
    from Cons [of "emit (TrackStop t) s"] obtain tr where
      "state_of (forEach ts (track_stop en) (emit (TrackStop t) s))
         = (emit (TrackStop t) s)\<lparr>trace := trace (emit (TrackStop t) s) @ tr\<rparr>"
      "connect_attempts tr = []"
      by blast
    with None show ?thesis
      by (intro exI [of _ "TrackStop t # tr"]) (simp add: track_stop_None, simp add: emit_def)
  next
    case (Some e)
    then show ?thesis
      by (intro exI [of _ "[TrackStop t]"]) (simp add: track_stop_Some, simp add: emit_def)
  qed
qed

lemma connect_attempts_close_effects [simp]: "connect_attempts (close_effects en k s) = []"
  by (simp add: close_effects_def split: option.split)

lemma connect_attempts_disconnect_effects [simp]: "connect_attempts (disconnect_effects en s) = []"
  by (simp add: disconnect_effects_def disconnect_effects_of_def split: option.split)

lemma connect_attempts_map_SourceStop [simp]: "connect_attempts (map SourceStop hs) = []"
  by (induction hs) simp_all

lemma connect_attempts_map_TrackStop [simp]: "connect_attempts (map TrackStop ts) = []"
  by (induction ts) simp_all

text \<open>
  What a stop never touches, whether it returns or a track stop throws: timers, connect
  calls, clock, error message, selection, client and the connection attempts on record;
  it only ever clears \<open>connected\<close> and \<open>isRetrying\<close>.
\<close>

lemma stopSession_keeps:
  fixes en s
  defines "s' \<equiv> state_of (stopSession en s)"
  shows "timers s' = timers s \<and> connects s' = connects s \<and> now_ms s' = now_ms s
     \<and> error s' = error s \<and> aiClientRef s' = aiClientRef s
     \<and> selectedLanguage s' = selectedLanguage s \<and> selectedMode s' = selectedMode s
     \<and> uncaught s' = uncaught s
     \<and> connect_attempts (trace s') = connect_attempts (trace s)
     \<and> userInitiatedDisconnect s'
     \<and> (connected s' \<longrightarrow> connected s) \<and> (isRetrying s' \<longrightarrow> isRetrying s)"
proof -
  define s3 where "s3 = close_context en OutputCtx
      (close_context en InputCtx (s\<lparr>userInitiatedDisconnect := True\<rparr>))"
  have s3: "s3 = s\<lparr>userInitiatedDisconnect := True,
       inputAudioContextRef := map_option (\<lambda>st. Closed) (inputAudioContextRef s),
       outputAudioContextRef := map_option (\<lambda>st. Closed) (outputAudioContextRef s),
       trace := trace s @ close_effects en InputCtx s @ close_effects en OutputCtx s\<rparr>"
    by (simp add: s3_def close_context_eq get_ctx_def set_ctx_def close_effects_def)
  have unfold: "stopSession en s = bind_c (stop_tracks en s3)
           (\<lambda>s4. bind_c (disconnect_nodes en s4)
              (\<lambda>s5. bind_c (stop_all_sources en s5)
                 (\<lambda>s6. Returns (reset_after_stop s6))))"
    by (simp add: stopSession_def s3_def Let_def)
  obtain tr where tr: "state_of (stop_tracks en s3) = s3\<lparr>trace := trace s3 @ tr\<rparr>"
    "connect_attempts tr = []"
  proof (cases "streamRef s3")
    case None
    then show ?thesis using that [of "[]"] by (simp add: stop_tracks_def)
  next
    case (Some ms)
    with forEach_track_stop_any [of "tracks ms" en s3] show ?thesis
      using that by (auto simp: stop_tracks_def)
  qed
  show ?thesis
  proof (cases "stop_tracks en s3")
    case (Returns s4)
    with tr have s4: "s4 = s3\<lparr>trace := trace s3 @ tr\<rparr>" by simp
    have "stopSession en s = Returns (reset_after_stop
        (s4\<lparr>trace := (trace s4 @ disconnect_effects en s4) @ map SourceStop (sourcesRef s4)\<rparr>))"
      by (simp add: unfold Returns disconnect_nodes_eq stop_all_sources_eq)
    then show ?thesis
      using tr(2) by (simp add: s'_def s4 s3 reset_after_stop_def connect_attempts_append)
  next
    case (Throws e s4)
    with tr have s4: "s4 = s3\<lparr>trace := trace s3 @ tr\<rparr>" by simp
    have "stopSession en s = Throws e s4"
      by (simp add: unfold Throws)
    then show ?thesis
      using tr(2) by (simp add: s'_def s4 s3 connect_attempts_append)
  qed
qed






lemma run_Nil: "run en s [] = s"
  by (simp add: run_def)

lemma step_Elapse: "step en s (Elapse d) = s\<lparr>now_ms := now_ms s + d\<rparr>"
  by (simp add: step_def)

text \<open>A failure below the retry bound, not fatal and not after a stop, sets one timer.\<close>

lemma settle_schedules_retry:
  assumes "pid < length (connects s)" and "call_state (connects s ! pid) = Pending"
    and "\<not> isFatal err" and "call_attempt (connects s ! pid) < MAX_RETRIES"
    and "\<not> userInitiatedDisconnect s"
  shows "step en s (ConnectSettled pid (Some err)) =
     s\<lparr>connects := (connects s)[pid := (connects s ! pid)\<lparr>call_state := Rejected, deferred := []\<rparr>],
       trace := trace s @ [ConsoleError (''Connection attempt ''
           @ string_of_nat (call_attempt (connects s ! pid) + 1) @ '' failed:'')],
       timers := timers s @ [(now_ms s + RETRY_DELAY_MS, call_attempt (connects s ! pid) + 1,
                              call_selection (connects s ! pid))]\<rparr>"
  using assms
  by (simp add: step_def connect_settled_def connect_catch_def emit_def Let_def)

text \<open>A due timer calls \<^verbatim>\<open>connectWithRetry\<close>, whatever the stop flag says.\<close>

lemma timer_connects:
  assumes "timers s = (due, a, sel) # rest" and "due \<le> now_ms s" and "aiClientRef s \<noteq> None"
    and "0 < a"
  shows "step en s TimerFired =
     s\<lparr>timers := rest, isRetrying := True,
       error := Some (''Connection lost. Retrying... ('' @ string_of_nat a
                       @ ''/'' @ string_of_nat MAX_RETRIES @ '')''),
       trace := trace s @ [LiveConnect a (now_ms s) (connect_config (fst sel) (snd sel))],
       connects := connects s @ [\<lparr>call_attempt = a, call_state = Pending, deferred = [],
                                  call_selection = sel\<rparr>],
       sessionPromiseRef := Some (length (connects s))\<rparr>"
  using assms
  by (auto simp: step_def timer_fired_def connectWithRetry_def connect_try_def emit_def Let_def)


lemma timer_none:
  assumes "timers s = []"
  shows "step en s TimerFired = s"
  using assms by (simp add: step_def timer_fired_def)










text \<open>
  The retry test compares the message as it is, where the classification shown to the
  user compares it in lower case and knows two more marks. A first failure with the
  message \<open>UNAUTHENTICATED: invalid credentials\<close> is reported as an authentication
  failure, yet the retry test does not take it as fatal: a timer is set and the attempt
  is repeated.
\<close>

lemma unrecognised_authentication_failure_is_retried:
  "is_auth_failure unauthenticated_error \<and> \<not> isFatal unauthenticated_error
   \<and> getFriendlyErrorMessage unauthenticated_error
       = ''Authentication failed. Please check your API Key configuration.''
   \<and> timers (run sample_env init [SelectLanguage English, StartSession, Elapse 150,
         ConnectSettled 0 (Some unauthenticated_error)]) = [(2150, 1, (Some English, Mama))]
   \<and> connect_attempts (trace (run sample_env init [SelectLanguage English, StartSession,
         Elapse 150, ConnectSettled 0 (Some unauthenticated_error), Elapse 2000, TimerFired]))
       = [(0, 0), (1, 2150)]"
proof -
  have c: "is_auth_failure unauthenticated_error" "\<not> isFatal unauthenticated_error"
    "getFriendlyErrorMessage unauthenticated_error
       = ''Authentication failed. Please check your API Key configuration.''"
    by code_simp+
  then show ?thesis
    by (simp add: run_def step_def init_def sample_env_def handler_defs Let_def
        MAX_RETRIES_def RETRY_DELAY_MS_def)
qed

subsection \<open>The configuration of the connection attempts\<close>

text \<open>
  A start with a language selected, a key and a microphone calls \<^verbatim>\<open>live.connect\<close> once,
  with the configuration of the selection of that moment, which the call keeps.
\<close>

lemma startSession_connects:
  assumes "selectedLanguage s = Some lang" and "API_KEY en = Some key" and "key \<noteq> []"
    and "getUserMedia en = Inr ms"
  shows "sent_configs (trace (step en s StartSession))
       = sent_configs (trace s) @ [connect_config (Some lang) (selectedMode s)]
     \<and> connects (step en s StartSession)
       = connects s @ [\<lparr>call_attempt = 0, call_state = Pending, deferred = [],
                        call_selection = (Some lang, selectedMode s)\<rparr>]
     \<and> timers (step en s StartSession) = timers s
     \<and> \<not> userInitiatedDisconnect (step en s StartSession)
     \<and> aiClientRef (step en s StartSession) = Some key
     \<and> now_ms (step en s StartSession) = now_ms s"
  using assms
  by (auto simp: step_def startSession_def startSession_try_def new_context_def get_ctx_def
      set_ctx_def emit_def acquire_stream_def connectWithRetry_def connect_try_def Let_def
      sent_configs_append split: ctx_kind.splits)

text \<open>
  A retry sends the configuration of the attempt that failed, and the new call keeps its
  selection, whatever is selected when the timer runs out.
\<close>

lemma retry_resends_config:
  fixes en s pid err lang' mode'
  defines "s' \<equiv> run en s [ConnectSettled pid (Some err), SelectLanguage lang', SelectMode mode',
                 Elapse RETRY_DELAY_MS, TimerFired]"
  assumes pid: "pid < length (connects s)" and pend: "call_state (connects s ! pid) = Pending"
    and bound: "call_attempt (connects s ! pid) < MAX_RETRIES" and trans: "\<not> isFatal err"
    and nostop: "\<not> userInitiatedDisconnect s" and idle: "timers s = []"
    and client: "aiClientRef s \<noteq> None"
  shows "sent_configs (trace s')
       = sent_configs (trace s)
         @ [connect_config (fst (call_selection (connects s ! pid)))
              (snd (call_selection (connects s ! pid)))]
     \<and> length (connects s') = Suc (length (connects s))
     \<and> call_selection (connects s' ! length (connects s)) = call_selection (connects s ! pid)
     \<and> call_attempt (connects s' ! length (connects s)) = call_attempt (connects s ! pid) + 1"
proof -
  define a where "a = call_attempt (connects s ! pid)"
  define sel where "sel = call_selection (connects s ! pid)"
  define s1 where "s1 = step en s (ConnectSettled pid (Some err))"
  define s2 where "s2 = step en (step en s1 (SelectLanguage lang')) (SelectMode mode')"
  define s3 where "s3 = step en s2 (Elapse RETRY_DELAY_MS)"
  from settle_schedules_retry [OF pid pend trans bound nostop, of en]
  have s1: "timers s1 = [(now_ms s + RETRY_DELAY_MS, a + 1, sel)]"
    "sent_configs (trace s1) = sent_configs (trace s)" "aiClientRef s1 \<noteq> None"
    "now_ms s1 = now_ms s" "length (connects s1) = length (connects s)"
    using idle client by (simp_all add: s1_def a_def sel_def sent_configs_append)
  have s2: "s2 = s1\<lparr>selectedLanguage := Some lang', selectedMode := mode'\<rparr>"
    by (simp add: s2_def step_def)
  have s3: "s3 = s2\<lparr>now_ms := now_ms s2 + RETRY_DELAY_MS\<rparr>"
    by (simp add: s3_def step_Elapse)
  have "timers s3 = (now_ms s + RETRY_DELAY_MS, a + 1, sel) # []"
    "now_ms s + RETRY_DELAY_MS \<le> now_ms s3" "aiClientRef s3 \<noteq> None" "0 < a + 1"
    using s1 by (simp_all add: s3 s2)
  from timer_connects [OF this, of en]
  have s4: "step en s3 TimerFired =
     s3\<lparr>timers := [], isRetrying := True,
       error := Some (''Connection lost. Retrying... ('' @ string_of_nat (a + 1)
                       @ ''/'' @ string_of_nat MAX_RETRIES @ '')''),
       trace := trace s3 @ [LiveConnect (a + 1) (now_ms s3) (connect_config (fst sel) (snd sel))],
       connects := connects s3 @ [\<lparr>call_attempt = a + 1, call_state = Pending, deferred = [],
                                  call_selection = sel\<rparr>],
       sessionPromiseRef := Some (length (connects s3))\<rparr>" .
  have run: "s' = step en s3 TimerFired"
    by (simp add: s'_def run_def s3_def s2_def s1_def)
  show ?thesis
    unfolding run s4 using s1(1-4)
    by (simp add: s3 s2 sent_configs_append a_def sel_def s1(5) [symmetric])
qed

text \<open>
  Claim C6: the configuration passed to \<^verbatim>\<open>live.connect\<close> is the function
  \<^const>\<open>connect_config\<close> of the language and mode that are selected when the session is
  started. A start in any state with language \<open>lang\<close> selected makes one call, with
  \<^const>\<open>connect_config\<close> of \<open>lang\<close> and the selected mode. When that attempt fails with an
  error that is not fatal and the selection is changed before the retry timer runs out,
  the retry sends the configuration of the start once more, not that of the new
  selection. In general, in any state, the retry of a failed attempt sends the
  configuration of that attempt, and the new call keeps its selection, so that every
  attempt of a session carries the configuration of its start. For every language, mode \<^verbatim>\<open>'mama'\<close> gives the voice \<^verbatim>\<open>Puck\<close> and an
  instruction that contains the directive \<^verbatim>\<open>Your voice is MALE.\<close>, the language name, and
  \<^verbatim>\<open>Speak ONLY in\<close> followed by the language name; mode \<^verbatim>\<open>'love'\<close> gives the voice
  \<^verbatim>\<open>Kore\<close> and the same with \<^verbatim>\<open>Your voice is FEMALE.\<close>
\<close>

theorem session_config_of_language_and_mode:
  fixes en :: env and s :: state and lang lang' :: Language and mode' :: Mode
    and err :: js_error and c :: nat
  assumes sel: "selectedLanguage s = Some lang"
    and key: "API_KEY en = Some key" "key \<noteq> []" and mic: "getUserMedia en = Inr ms"
    and idle: "timers s = []" and transient: "\<not> isFatal err"
  shows "sent_configs (trace (step en s StartSession))
       = sent_configs (trace s) @ [connect_config (Some lang) (selectedMode s)]
     \<and> call_selection (connects (step en s StartSession) ! length (connects s))
       = (Some lang, selectedMode s)
     \<and> (\<forall>r pid. pid < length (connects r) \<and> call_state (connects r ! pid) = Pending
            \<and> call_attempt (connects r ! pid) < MAX_RETRIES
            \<and> \<not> userInitiatedDisconnect r \<and> timers r = [] \<and> aiClientRef r \<noteq> None
          \<longrightarrow> sent_configs (trace (run en r [ConnectSettled pid (Some err),
                  SelectLanguage lang', SelectMode mode', Elapse RETRY_DELAY_MS, TimerFired]))
                = sent_configs (trace r)
                  @ [connect_config (fst (call_selection (connects r ! pid)))
                       (snd (call_selection (connects r ! pid)))]
            \<and> call_selection (connects (run en r [ConnectSettled pid (Some err),
                  SelectLanguage lang', SelectMode mode', Elapse RETRY_DELAY_MS, TimerFired])
                  ! length (connects r))
                = call_selection (connects r ! pid))
     \<and> selectedLanguage (run en s [StartSession, Elapse c,
           ConnectSettled (length (connects s)) (Some err),
           SelectLanguage lang', SelectMode mode', Elapse RETRY_DELAY_MS]) = Some lang'
     \<and> selectedMode (run en s [StartSession, Elapse c,
           ConnectSettled (length (connects s)) (Some err),
           SelectLanguage lang', SelectMode mode', Elapse RETRY_DELAY_MS]) = mode'
     \<and> sent_configs (trace (run en s [StartSession, Elapse c,
           ConnectSettled (length (connects s)) (Some err),
           SelectLanguage lang', SelectMode mode', Elapse RETRY_DELAY_MS, TimerFired]))
       = sent_configs (trace s)
         @ [connect_config (Some lang) (selectedMode s), connect_config (Some lang) (selectedMode s)]
     \<and> voiceName (connect_config (Some lang) Mama) = ''Puck''
     \<and> js_includes (systemInstruction (connect_config (Some lang) Mama)) ''Your voice is MALE.''
     \<and> js_includes (systemInstruction (connect_config (Some lang) Mama)) (language_name lang)
     \<and> js_includes (systemInstruction (connect_config (Some lang) Mama))
          (''Speak ONLY in '' @ language_name lang)
     \<and> voiceName (connect_config (Some lang) Love) = ''Kore''
     \<and> js_includes (systemInstruction (connect_config (Some lang) Love)) ''Your voice is FEMALE.''
     \<and> js_includes (systemInstruction (connect_config (Some lang) Love)) (language_name lang)
     \<and> js_includes (systemInstruction (connect_config (Some lang) Love))
          (''Speak ONLY in '' @ language_name lang)"
proof -
  define n where "n = length (connects s)"
  define cfg where "cfg = connect_config (Some lang) (selectedMode s)"
  define s0 where "s0 = step en s StartSession"
  define s1 where "s1 = step en s0 (Elapse c)"
  define s2 where "s2 = step en s1 (ConnectSettled n (Some err))"
  define s3 where "s3 = step en (step en s2 (SelectLanguage lang')) (SelectMode mode')"
  define s4 where "s4 = step en s3 (Elapse RETRY_DELAY_MS)"
  define s5 where "s5 = step en s4 TimerFired"
  from startSession_connects [OF sel key mic]
  have s0: "sent_configs (trace s0) = sent_configs (trace s) @ [cfg]"
    "connects s0 = connects s @ [\<lparr>call_attempt = 0, call_state = Pending, deferred = [],
                        call_selection = (Some lang, selectedMode s)\<rparr>]"
    "timers s0 = []" "\<not> userInitiatedDisconnect s0" "aiClientRef s0 = Some key"
    "now_ms s0 = now_ms s"
    using idle by (simp_all add: s0_def cfg_def)
  have s1: "s1 = s0\<lparr>now_ms := now_ms s0 + c\<rparr>"
    by (simp add: s1_def step_Elapse)
  have "n < length (connects s1)" "call_state (connects s1 ! n) = Pending"
    "call_attempt (connects s1 ! n) < MAX_RETRIES" "\<not> userInitiatedDisconnect s1"
    using s0 by (simp_all add: s1 n_def MAX_RETRIES_def)
  from settle_schedules_retry [OF this(1,2) transient this(3,4), of en]
  have s2: "timers s2 = [(now_ms s + c + RETRY_DELAY_MS, Suc 0, (Some lang, selectedMode s))]"
    "sent_configs (trace s2) = sent_configs (trace s) @ [cfg]" "aiClientRef s2 = Some key"
    "now_ms s2 = now_ms s + c"
    using s0 by (simp_all add: s2_def s1 n_def sent_configs_append)
  have s3: "s3 = s2\<lparr>selectedLanguage := Some lang', selectedMode := mode'\<rparr>"
    by (simp add: s3_def step_def)
  have s4: "s4 = s3\<lparr>now_ms := now_ms s3 + RETRY_DELAY_MS\<rparr>"
    by (simp add: s4_def step_Elapse)
  have current: "selectedLanguage s4 = Some lang'" "selectedMode s4 = mode'"
    by (simp_all add: s4 s3)
  have "timers s4 = (now_ms s + c + RETRY_DELAY_MS, Suc 0, (Some lang, selectedMode s)) # []"
    "now_ms s + c + RETRY_DELAY_MS \<le> now_ms s4" "aiClientRef s4 \<noteq> None" "0 < Suc 0"
    using s2 by (simp_all add: s4 s3)
  from timer_connects [OF this, of en]
  have s5: "sent_configs (trace s5) = sent_configs (trace s) @ [cfg, cfg]"
    using s2 by (simp add: s5_def s4 s3 sent_configs_append cfg_def)
  have runs: "run en s [StartSession, Elapse c, ConnectSettled (length (connects s)) (Some err),
           SelectLanguage lang', SelectMode mode', Elapse RETRY_DELAY_MS] = s4"
    "run en s [StartSession, Elapse c, ConnectSettled (length (connects s)) (Some err),
           SelectLanguage lang', SelectMode mode', Elapse RETRY_DELAY_MS, TimerFired] = s5"
    by (simp_all add: run_def s5_def s4_def s3_def s2_def s1_def s0_def n_def)
  have texts: "voiceName (connect_config (Some lang) Mama) = ''Puck''
     \<and> js_includes (systemInstruction (connect_config (Some lang) Mama)) ''Your voice is MALE.''
     \<and> js_includes (systemInstruction (connect_config (Some lang) Mama)) (language_name lang)
     \<and> js_includes (systemInstruction (connect_config (Some lang) Mama))
          (''Speak ONLY in '' @ language_name lang)
     \<and> voiceName (connect_config (Some lang) Love) = ''Kore''
     \<and> js_includes (systemInstruction (connect_config (Some lang) Love)) ''Your voice is FEMALE.''
     \<and> js_includes (systemInstruction (connect_config (Some lang) Love)) (language_name lang)
     \<and> js_includes (systemInstruction (connect_config (Some lang) Love))
          (''Speak ONLY in '' @ language_name lang)"
    using instruction_male [of "Some lang"] instruction_female [of "Some lang"]
      instruction_language [of "Some lang" Mama] instruction_language [of "Some lang" Love]
      instruction_only_language [of "Some lang" Mama]
      instruction_only_language [of "Some lang" Love]
    by (simp add: connect_config_def language_text_def)
  have call: "call_selection (connects s0 ! length (connects s)) = (Some lang, selectedMode s)"
    by (simp add: s0(2))
  have retry: "sent_configs (trace (run en r [ConnectSettled pid (Some err),
                  SelectLanguage lang', SelectMode mode', Elapse RETRY_DELAY_MS, TimerFired]))
                = sent_configs (trace r)
                  @ [connect_config (fst (call_selection (connects r ! pid)))
                       (snd (call_selection (connects r ! pid)))]
            \<and> call_selection (connects (run en r [ConnectSettled pid (Some err),
                  SelectLanguage lang', SelectMode mode', Elapse RETRY_DELAY_MS, TimerFired])
                  ! length (connects r))
                = call_selection (connects r ! pid)"
    if "pid < length (connects r)" "call_state (connects r ! pid) = Pending"
      "call_attempt (connects r ! pid) < MAX_RETRIES" "\<not> userInitiatedDisconnect r"
      "timers r = []" "aiClientRef r \<noteq> None" for r pid
    using retry_resends_config [OF that(1,2,3) transient that(4,5,6),
        where en = en and lang' = lang' and mode' = mode']
    by simp
  from s0(1) call retry current s5 texts show ?thesis
    unfolding runs s0_def cfg_def by blast
qed

text \<open>
  The two scenarios of the specification on the sample platform. Tamil with love: the
  first attempt fails with a network error and the user selects English with mama while
  the retry timer runs; both calls carry the voice \<^verbatim>\<open>Kore\<close> and the instruction with
  \<^verbatim>\<open>FEMALE\<close> and \<^verbatim>\<open>Tamil\<close>. English with mama: the voice is \<^verbatim>\<open>Puck\<close>, the instruction has
  \<^verbatim>\<open>MALE\<close> and \<^verbatim>\<open>English\<close>.
\<close>

theorem session_config_witness:
  "selectedLanguage (init\<lparr>selectedLanguage := Some Tamil, selectedMode := Love\<rparr>) = Some Tamil
   \<and> API_KEY sample_env = Some ''key'' \<and> ''key'' \<noteq> []
   \<and> getUserMedia sample_env = Inr \<lparr>stream_active = True, tracks = [0]\<rparr>
   \<and> timers (init\<lparr>selectedLanguage := Some Tamil, selectedMode := Love\<rparr>) = []
   \<and> \<not> isFatal network_error
   \<and> sent_configs (trace (run sample_env (init\<lparr>selectedLanguage := Some Tamil, selectedMode := Love\<rparr>)
         [StartSession, Elapse 150, ConnectSettled 0 (Some network_error),
          SelectLanguage English, SelectMode Mama, Elapse RETRY_DELAY_MS, TimerFired]))
       = [connect_config (Some Tamil) Love, connect_config (Some Tamil) Love]
   \<and> voiceName (connect_config (Some Tamil) Love) = ''Kore''
   \<and> js_includes (systemInstruction (connect_config (Some Tamil) Love)) ''Your voice is FEMALE.''
   \<and> js_includes (systemInstruction (connect_config (Some Tamil) Love)) ''Tamil''
   \<and> sent_configs (trace (step sample_env (init\<lparr>selectedLanguage := Some English\<rparr>) StartSession))
       = [connect_config (Some English) Mama]
   \<and> voiceName (connect_config (Some English) Mama) = ''Puck''
   \<and> js_includes (systemInstruction (connect_config (Some English) Mama)) ''Your voice is MALE.''
   \<and> js_includes (systemInstruction (connect_config (Some English) Mama)) ''English''"
proof -
  have h: "API_KEY sample_env = Some ''key''" "''key'' \<noteq> []"
    "getUserMedia sample_env = Inr \<lparr>stream_active = True, tracks = [0]\<rparr>"
    by (simp_all add: sample_env_def)
  have t: "selectedLanguage (init\<lparr>selectedLanguage := Some Tamil, selectedMode := Love\<rparr>) = Some Tamil"
    "timers (init\<lparr>selectedLanguage := Some Tamil, selectedMode := Love\<rparr>) = []"
    and e: "selectedLanguage (init\<lparr>selectedLanguage := Some English\<rparr>) = Some English"
    "timers (init\<lparr>selectedLanguage := Some English\<rparr>) = []"
    by (simp_all add: init_def)
  note tamil = session_config_of_language_and_mode [OF t(1) h t(2) network_error_transient,
      where lang' = English and mode' = Mama and c = 150]
  note english = session_config_of_language_and_mode [OF e(1) h e(2) network_error_transient,
      where lang' = English and mode' = Mama and c = 150]
  from tamil [THEN conjunct2, THEN conjunct2, THEN conjunct2] english [THEN conjunct1]
    english [THEN conjunct2, THEN conjunct2, THEN conjunct2]
  show ?thesis
    using h t network_error_transient by (simp add: init_def)
qed

subsection \<open>A stop while a retry timer is pending\<close>

text \<open>A stop sets the flag and leaves a pending timer, the client and the clock as they are.\<close>

lemma stop_keeps_timers:
  "timers (step en s UserStop) = timers s \<and> aiClientRef (step en s UserStop) = aiClientRef s
   \<and> now_ms (step en s UserStop) = now_ms s
   \<and> connect_attempts (trace (step en s UserStop)) = connect_attempts (trace s)
   \<and> userInitiatedDisconnect (step en s UserStop)"
  using stopSession_keeps [of en s]
  by (cases "stopSession en s") (simp_all add: step_def)

text \<open>
  On any platform and in any state with a client and a pending retry timer: a stop
  followed by the timer running out ends in one more call of \<^verbatim>\<open>live.connect\<close>.
\<close>

lemma pending_retry_survives_stop:
  assumes "timers s = (due, a, sel) # rest" and "0 < a" and "aiClientRef s \<noteq> None"
  shows "connect_attempts (trace (run en s [UserStop, Elapse (due - now_ms s), TimerFired]))
       = connect_attempts (trace s) @ [(a, now_ms s + (due - now_ms s))]"
proof -
  define s1 where "s1 = step en s UserStop"
  define s2 where "s2 = step en s1 (Elapse (due - now_ms s))"
  have s1: "timers s1 = timers s" "aiClientRef s1 = aiClientRef s" "now_ms s1 = now_ms s"
    "connect_attempts (trace s1) = connect_attempts (trace s)"
    using stop_keeps_timers [of en s] by (simp_all add: s1_def)
  have "timers s2 = (due, a, sel) # rest" "due \<le> now_ms s2" "aiClientRef s2 \<noteq> None"
    using assms s1 by (simp_all add: s2_def step_Elapse)
  from timer_connects [OF this assms(2), of en]
  have "connect_attempts (trace (step en s2 TimerFired))
      = connect_attempts (trace s2) @ [(a, now_ms s2)]"
    by (simp add: connect_attempts_append)
  moreover have "trace s2 = trace s1" "now_ms s2 = now_ms s + (due - now_ms s)"
    using s1 by (simp_all add: s2_def step_Elapse)
  ultimately show ?thesis
    using s1 by (simp add: run_def s1_def s2_def)
qed

text \<open>
  Claim C3, at the failing input: the first attempt fails with a network error and the
  user ends the call while the retry timer is pending. The stop sets the flag but leaves
  the timer; when the timer runs out 1500 ms later, the callback calls \<^verbatim>\<open>live.connect\<close>
  for attempt 1, stores the new promise and shows the retry banner.
\<close>

theorem stop_during_retry_delay_still_connects:
  "userInitiatedDisconnect stopped_while_waiting
   \<and> timers stopped_while_waiting = [(2150, 1, (Some English, Mama))]
   \<and> connect_attempts (trace stopped_while_waiting) = [(0, 0)]
   \<and> connect_attempts (trace (run sample_env stopped_while_waiting [Elapse 1500, TimerFired]))
       = [(0, 0), (1, 2150)]
   \<and> userInitiatedDisconnect (run sample_env stopped_while_waiting [Elapse 1500, TimerFired])
   \<and> sessionPromiseRef (run sample_env stopped_while_waiting [Elapse 1500, TimerFired]) = Some 1
   \<and> isRetrying (run sample_env stopped_while_waiting [Elapse 1500, TimerFired])"
  by (simp add: stopped_while_waiting_def run_def step_def init_def sample_env_def handler_defs
      Let_def network_error_transient MAX_RETRIES_def RETRY_DELAY_MS_def)

end
